theory Spec2Isabelle
  imports Complex_Main
begin

section \<open>Python values used by the processors\<close>

text \<open>
  The batch processors \<^verbatim>\<open>EC_v5.py\<close>, \<^verbatim>\<open>ED_v2.py\<close>, \<^verbatim>\<open>ES_v1.py\<close> and \<^verbatim>\<open>QA_v3.py\<close> send prompts
  to a language model and turn its free text into records.  They lean on three pieces
  of the Python library: \<^verbatim>\<open>str\<close> methods, the \<^verbatim>\<open>re\<close> module and \<^verbatim>\<open>json.loads\<close>.  These are
  modelled first.

  Text is a \<^typ>\<open>string\<close>; text outside ASCII stands as the bytes of its UTF-8 encoding.
  The model follows Python on ASCII text.  On other text it is an approximation: a
  character outside ASCII is neither white space, digit nor word character, \<^verbatim>\<open>lower\<close>
  leaves it alone, and a slice counts bytes.
\<close>

subsection \<open>Exceptions\<close>

text \<open>
  The exception classes that decide which \<^verbatim>\<open>except\<close> clause of the sources is taken;
  \<open>OtherError\<close> stands for any other exception.
\<close>

datatype exn =
    JSONDecodeError
  | ValueError
  | TypeError
  | AttributeError
  | KeyError
  | IndexError
  | RequestException
  | OverflowError
  | UnicodeEncodeError
  | OtherError

subsection \<open>Strings\<close>

definition isspace :: "char \<Rightarrow> bool" where
  "isspace c = (c \<in> set [CHR 0x09, CHR 0x0A, CHR 0x0B, CHR 0x0C, CHR 0x0D,
                          CHR 0x1C, CHR 0x1D, CHR 0x1E, CHR 0x1F, CHR 0x20])"

definition isdigit :: "char \<Rightarrow> bool" where
  "isdigit c = (c \<in> set ''0123456789'')"

definition isword :: "char \<Rightarrow> bool" where
  "isword c = (c \<in> set ''abcdefghijklmnopqrstuvwxyzABCDEFGHIJKLMNOPQRSTUVWXYZ0123456789_'')"

definition lower_char :: "char \<Rightarrow> char" where
  "lower_char c =
     (case map_of (zip ''ABCDEFGHIJKLMNOPQRSTUVWXYZ'' ''abcdefghijklmnopqrstuvwxyz'') c of
        Some d \<Rightarrow> d
      | None \<Rightarrow> c)"

definition lower :: "string \<Rightarrow> string" where
  "lower s = map lower_char s"

text \<open>\<^verbatim>\<open>s.strip()\<close>: white space removed at both ends.\<close>

definition strip :: "string \<Rightarrow> string" where
  "strip s = rev (dropWhile isspace (rev (dropWhile isspace s)))"

text \<open>\<^verbatim>\<open>s.split()\<close>: the maximal runs of characters that are not white space.\<close>

fun split_from :: "string \<Rightarrow> string \<Rightarrow> string list" where
  "split_from w [] = (if w = [] then [] else [rev w])"
| "split_from w (x # xs) =
     (if isspace x then (if w = [] then split_from [] xs else rev w # split_from [] xs)
      else split_from (x # w) xs)"

definition split :: "string \<Rightarrow> string list" where
  "split s = split_from [] s"

definition startswith :: "string \<Rightarrow> string \<Rightarrow> bool" where
  "startswith s p = (take (length p) s = p)"

text \<open>\<^verbatim>\<open>sub in s\<close> on two strings.\<close>

fun str_contains :: "string \<Rightarrow> string \<Rightarrow> bool" where
  "str_contains sub [] = (sub = [])"
| "str_contains sub (x # xs) = (startswith (x # xs) sub \<or> str_contains sub xs)"

text \<open>
  The characters of a text: each byte that starts a character, with the continuation
  bytes \<^verbatim>\<open>80\<close> to \<^verbatim>\<open>BF\<close> that follow it.
\<close>

definition is_continuation :: "char \<Rightarrow> bool" where
  "is_continuation c = (0x80 \<le> (of_char c :: nat) \<and> (of_char c :: nat) < 0xC0)"

function code_points :: "string \<Rightarrow> string list" where
  "code_points [] = []"
| "code_points (c # s) =
     (c # takeWhile is_continuation s) # code_points (dropWhile is_continuation s)"
  by pat_completeness auto

termination
  by (relation "measure length") (auto simp: less_Suc_eq_le length_dropWhile_le)

text \<open>
  A surrogate, \<^verbatim>\<open>U+D800\<close> to \<^verbatim>\<open>U+DFFF\<close>, stands as the three bytes its code point would have
  in UTF-8: the byte \<^verbatim>\<open>ED\<close> followed by a byte from \<^verbatim>\<open>A0\<close> on.  Text read from a file has
  none; the escape \<^verbatim>\<open>\uD800\<close> of a JSON string brings one in.
\<close>

fun has_surrogate :: "string \<Rightarrow> bool" where
  "has_surrogate (a # b # s) =
     ((a = CHR 0xED \<and> 0xA0 \<le> (of_char b :: nat)) \<or> has_surrogate (b # s))"
| "has_surrogate s = False"

text \<open>
  \<^verbatim>\<open>int(s)\<close> on a string: a \<^verbatim>\<open>ValueError\<close> (\<open>None\<close>) unless \<open>s\<close> is a non-empty run of
  digits no longer than the interpreter's limit on integer strings (4300 digits).
\<close>

definition int_max_str_digits :: nat where
  "int_max_str_digits = 4300"

definition digit_val :: "char \<Rightarrow> int" where
  "digit_val c = int (of_char c) - 48"

definition digits_val :: "string \<Rightarrow> int" where
  "digits_val s = foldl (\<lambda>a c. 10 * a + digit_val c) 0 s"

definition py_int :: "string \<Rightarrow> int option" where
  "py_int s =
     (if s \<noteq> [] \<and> list_all isdigit s \<and> length s \<le> int_max_str_digits
      then Some (digits_val s) else None)"

subsection \<open>Regular expressions\<close>

text \<open>
  The patterns of the sources use literal characters, the classes \<^verbatim>\<open>\s\<close>, \<^verbatim>\<open>\d\<close>, \<^verbatim>\<open>.\<close>,
  \<^verbatim>\<open>[...]\<close> and \<^verbatim>\<open>[^...]\<close>, the repetitions \<^verbatim>\<open>*\<close>, \<^verbatim>\<open>+\<close>, \<^verbatim>\<open>?\<close> and \<^verbatim>\<open>*?\<close> applied to one
  character, at most one group, and the anchors \<^verbatim>\<open>^\<close>, \<^verbatim>\<open>$\<close> and \<^verbatim>\<open>\b\<close>.  A pattern is the
  list of its items; the matcher backtracks in the order of \<^verbatim>\<open>re\<close>: a greedy repetition
  tries one more character first, a lazy one tries the rest of the pattern first.
\<close>

datatype cclass =
    Chr char
  | Space
  | Digit
  | Dot
  | OneOf "char list"
  | NoneOf "char list"

datatype item =
    One cclass
  | Star cclass
  | Plus cclass
  | Opt cclass
  | LazyStar cclass
  | GroupOpen
  | GroupClose
  | Bol
  | Eol
  | WordB

record re_flags =
  IGNORECASE :: bool
  DOTALL :: bool

definition no_flags :: re_flags where
  "no_flags = \<lparr>IGNORECASE = False, DOTALL = False\<rparr>"

definition lit :: "string \<Rightarrow> item list" where
  "lit s = map (\<lambda>c. One (Chr c)) s"

definition chr_eq :: "re_flags \<Rightarrow> char \<Rightarrow> char \<Rightarrow> bool" where
  "chr_eq f c x = (if IGNORECASE f then lower_char x = lower_char c else x = c)"

fun cmatch :: "re_flags \<Rightarrow> cclass \<Rightarrow> char \<Rightarrow> bool" where
  "cmatch f (Chr c) x = chr_eq f c x"
| "cmatch f Space x = isspace x"
| "cmatch f Digit x = isdigit x"
| "cmatch f Dot x = (DOTALL f \<or> x \<noteq> CHR 0x0A)"
| "cmatch f (OneOf cs) x = list_ex (\<lambda>c. chr_eq f c x) cs"
| "cmatch f (NoneOf cs) x = (\<not> list_ex (\<lambda>c. chr_eq f c x) cs)"

text \<open>
  A match is the text matched and the text of the group.  Both are built on the way back
  from the end of the pattern: \<open>Closing g\<close> says that the group's closing parenthesis lies
  ahead and \<open>g\<close> is the part of the group matched from here on.
\<close>

datatype group = NoGroup | Closing string | Closed string

type_synonym re_match = "string \<times> group"

fun consume :: "char \<Rightarrow> re_match \<Rightarrow> re_match" where
  "consume x (w, NoGroup) = (x # w, NoGroup)"
| "consume x (w, Closing g) = (x # w, Closing (x # g))"
| "consume x (w, Closed g) = (x # w, Closed g)"

fun close_group :: "re_match \<Rightarrow> re_match" where
  "close_group (w, NoGroup) = (w, Closing [])"
| "close_group (w, g) = (w, g)"

fun open_group :: "re_match \<Rightarrow> re_match" where
  "open_group (w, Closing g) = (w, Closed g)"
| "open_group (w, g) = (w, g)"

definition group0 :: "re_match \<Rightarrow> string" where
  "group0 m = fst m"

definition group1 :: "re_match \<Rightarrow> string" where
  "group1 m = (case snd m of Closed g \<Rightarrow> g | _ \<Rightarrow> [])"

definition word_before :: "char option \<Rightarrow> bool" where
  "word_before p = (case p of None \<Rightarrow> False | Some c \<Rightarrow> isword c)"

definition word_after :: "string \<Rightarrow> bool" where
  "word_after s = (case s of [] \<Rightarrow> False | c # _ \<Rightarrow> isword c)"

text \<open>
  \<open>re_at f r p s\<close> matches the pattern \<open>r\<close> at the head of \<open>s\<close>; \<open>p\<close> is the character before
  \<open>s\<close> in the subject, \<open>None\<close> at its start.
\<close>

fun re_at :: "re_flags \<Rightarrow> item list \<Rightarrow> char option \<Rightarrow> string \<Rightarrow> re_match option" where
  "re_at f [] p s = Some ([], NoGroup)"
| "re_at f (One c # r) p [] = None"
| "re_at f (One c # r) p (x # xs) =
     (if cmatch f c x then map_option (consume x) (re_at f r (Some x) xs) else None)"
| "re_at f (Star c # r) p [] = re_at f r p []"
| "re_at f (Star c # r) p (x # xs) =
     (if cmatch f c x then
        (case re_at f (Star c # r) (Some x) xs of
           Some m \<Rightarrow> Some (consume x m)
         | None \<Rightarrow> re_at f r p (x # xs))
      else re_at f r p (x # xs))"
| "re_at f (Plus c # r) p [] = None"
| "re_at f (Plus c # r) p (x # xs) =
     (if cmatch f c x then map_option (consume x) (re_at f (Star c # r) (Some x) xs) else None)"
| "re_at f (Opt c # r) p [] = re_at f r p []"
| "re_at f (Opt c # r) p (x # xs) =
     (if cmatch f c x then
        (case re_at f r (Some x) xs of
           Some m \<Rightarrow> Some (consume x m)
         | None \<Rightarrow> re_at f r p (x # xs))
      else re_at f r p (x # xs))"
| "re_at f (LazyStar c # r) p [] = re_at f r p []"
| "re_at f (LazyStar c # r) p (x # xs) =
     (case re_at f r p (x # xs) of
        Some m \<Rightarrow> Some m
      | None \<Rightarrow>
          (if cmatch f c x then map_option (consume x) (re_at f (LazyStar c # r) (Some x) xs)
           else None))"
| "re_at f (GroupOpen # r) p s = map_option open_group (re_at f r p s)"
| "re_at f (GroupClose # r) p s = map_option close_group (re_at f r p s)"
| "re_at f (Bol # r) p s = (if p = None then re_at f r p s else None)"
| "re_at f (Eol # r) p s = (if s = [] \<or> s = [CHR 0x0A] then re_at f r p s else None)"
| "re_at f (WordB # r) p s = (if word_before p \<noteq> word_after s then re_at f r p s else None)"

text \<open>\<^verbatim>\<open>re.match\<close> tries the start of the subject only, \<^verbatim>\<open>re.search\<close> every position from
  the left.\<close>

definition re_match :: "re_flags \<Rightarrow> item list \<Rightarrow> string \<Rightarrow> re_match option" where
  "re_match f r s = re_at f r None s"

fun re_search_from :: "re_flags \<Rightarrow> item list \<Rightarrow> char option \<Rightarrow> string \<Rightarrow> re_match option" where
  "re_search_from f r p [] = re_at f r p []"
| "re_search_from f r p (x # xs) =
     (case re_at f r p (x # xs) of
        Some m \<Rightarrow> Some m
      | None \<Rightarrow> re_search_from f r (Some x) xs)"

definition re_search :: "re_flags \<Rightarrow> item list \<Rightarrow> string \<Rightarrow> re_match option" where
  "re_search f r s = re_search_from f r None s"

text \<open>
  \<^verbatim>\<open>re.findall\<close> for a pattern without a group: the texts of the successive matches, each
  search starting where the last match ended (one character further after an empty
  match).
\<close>

fun re_findall_from :: "re_flags \<Rightarrow> item list \<Rightarrow> char option \<Rightarrow> string \<Rightarrow> string list" where
  "re_findall_from f r p [] = (case re_at f r p [] of Some m \<Rightarrow> [group0 m] | None \<Rightarrow> [])"
| "re_findall_from f r p (x # xs) =
     (case re_at f r p (x # xs) of
        None \<Rightarrow> re_findall_from f r (Some x) xs
      | Some m \<Rightarrow>
          group0 m #
          re_findall_from f r (Some (last (x # group0 m))) (drop (length (group0 m) - 1) xs))"

definition re_findall :: "re_flags \<Rightarrow> item list \<Rightarrow> string \<Rightarrow> string list" where
  "re_findall f r s = re_findall_from f r None s"


subsection \<open>JSON values\<close>

text \<open>
  What \<^verbatim>\<open>json.loads\<close> returns.  A float keeps the decimal \<open>m * 10 ^ e\<close> it was written as
  (Python rounds it to a double); an object is a \<^verbatim>\<open>dict\<close>: its keys are distinct and keep
  the order of their first insertion.
\<close>

datatype pyfloat = FDec int int | FNan | FInf bool

datatype json =
    JNull
  | JBool bool
  | JInt int
  | JFloat pyfloat
  | JStr string
  | JArr "json list"
  | JObj "(string \<times> json) list"

type_synonym pydict = "(string \<times> json) list"

text \<open>\<^verbatim>\<open>d[k] = v\<close>\<close>

fun dict_set :: "pydict \<Rightarrow> string \<Rightarrow> json \<Rightarrow> pydict" where
  "dict_set [] k v = [(k, v)]"
| "dict_set ((k', v') # d) k v = (if k' = k then (k, v) # d else (k', v') # dict_set d k v)"

text \<open>\<^verbatim>\<open>d.get(k, default)\<close> on a dict.\<close>

definition dict_get :: "pydict \<Rightarrow> string \<Rightarrow> json \<Rightarrow> json" where
  "dict_get d k dflt = (case map_of d k of Some v \<Rightarrow> v | None \<Rightarrow> dflt)"

text \<open>\<^verbatim>\<open>x.get(k, default)\<close> on any decoded value: only a dict has the method.\<close>

definition py_get :: "json \<Rightarrow> string \<Rightarrow> json \<Rightarrow> exn + json" where
  "py_get x k dflt = (case x of JObj d \<Rightarrow> Inr (dict_get d k dflt) | _ \<Rightarrow> Inl AttributeError)"

text \<open>The double nearest to \<open>m * 10 ^ e\<close> is zero exactly when \<open>\<bar>m\<bar> * 10 ^ e \<le> 2 ^ -1075\<close>.\<close>

fun float_nonzero :: "pyfloat \<Rightarrow> bool" where
  "float_nonzero (FDec m e) =
     (m \<noteq> 0 \<and> (0 \<le> e \<or> 10 ^ nat (- e) < \<bar>m\<bar> * 2 ^ 1075))"
| "float_nonzero FNan = True"
| "float_nonzero (FInf _) = True"

text \<open>Truth value of a decoded value, as \<^verbatim>\<open>if x\<close> takes it.\<close>

fun py_truthy :: "json \<Rightarrow> bool" where
  "py_truthy JNull = False"
| "py_truthy (JBool b) = b"
| "py_truthy (JInt i) = (i \<noteq> 0)"
| "py_truthy (JFloat x) = float_nonzero x"
| "py_truthy (JStr s) = (s \<noteq> [])"
| "py_truthy (JArr xs) = (xs \<noteq> [])"
| "py_truthy (JObj d) = (d \<noteq> [])"

subsection \<open>\<^verbatim>\<open>json.loads\<close>\<close>

text \<open>
  The decoder reads the text from the left and raises at the first place that is wrong:
  \<^verbatim>\<open>JSONDecodeError\<close> for text that is not JSON, \<^verbatim>\<open>ValueError\<close> for an integer with more
  digits than \<^verbatim>\<open>int\<close> accepts.  It is modelled as a scanner that cuts the text into
  tokens, followed by a stack automaton over the tokens; a token \<open>TRaise\<close> stands for the
  place where scanning a value fails.
\<close>

datatype token =
    TLBrace
  | TRBrace
  | TLBrack
  | TRBrack
  | TColon
  | TComma
  | TVal json
  | TRaise exn

definition hex_val :: "char \<Rightarrow> nat option" where
  "hex_val c = map_of (zip ''0123456789abcdefABCDEF''
                 [0, 1, 2, 3, 4, 5, 6, 7, 8, 9, 10, 11, 12, 13, 14, 15, 10, 11, 12, 13, 14, 15]) c"

definition hex4 :: "string \<Rightarrow> nat option" where
  "hex4 s =
     (case map hex_val (take 4 s) of
        [Some a, Some b, Some c, Some d] \<Rightarrow> Some (((a * 16 + b) * 16 + c) * 16 + d)
      | _ \<Rightarrow> None)"

text \<open>A code point written as \<^verbatim>\<open>\uXXXX\<close> enters the text as its UTF-8 bytes.\<close>

definition utf8 :: "nat \<Rightarrow> string" where
  "utf8 u =
     (if u < 0x80 then [char_of u]
      else if u < 0x800 then [char_of (0xC0 + u div 0x40), char_of (0x80 + u mod 0x40)]
      else if u < 0x10000 then
        [char_of (0xE0 + u div 0x1000), char_of (0x80 + u div 0x40 mod 0x40),
         char_of (0x80 + u mod 0x40)]
      else
        [char_of (0xF0 + u div 0x40000), char_of (0x80 + u div 0x1000 mod 0x40),
         char_of (0x80 + u div 0x40 mod 0x40), char_of (0x80 + u mod 0x40)])"

text \<open>A high surrogate followed by an escaped low surrogate is one code point.\<close>

definition surrogate_pair :: "nat \<Rightarrow> string \<Rightarrow> nat option" where
  "surrogate_pair u s =
     (if 0xD800 \<le> u \<and> u \<le> 0xDBFF \<and> startswith s [CHR 0x5C, CHR ''u''] then
        (case hex4 (drop 2 s) of
           Some v \<Rightarrow>
             (if 0xDC00 \<le> v \<and> v \<le> 0xDFFF
              then Some (0x10000 + (u - 0xD800) * 0x400 + (v - 0xDC00)) else None)
         | None \<Rightarrow> None)
      else None)"

definition escapes :: "(char \<times> char) list" where
  "escapes = [(CHR 0x22, CHR 0x22), (CHR 0x5C, CHR 0x5C), (CHR ''/'', CHR ''/''),
              (CHR ''b'', CHR 0x08), (CHR ''f'', CHR 0x0C), (CHR ''n'', CHR 0x0A),
              (CHR ''r'', CHR 0x0D), (CHR ''t'', CHR 0x09)]"

definition is_control :: "char \<Rightarrow> bool" where
  "is_control c = ((of_char c :: nat) < 0x20)"

text \<open>
  The text after an opening quote: the decoded string and the number of characters read,
  the closing quote included.
\<close>

fun scanstring :: "string \<Rightarrow> (string \<times> nat) option" where
  "scanstring [] = None"
| "scanstring (c # cs) =
     (if c = CHR 0x22 then Some ([], 1)
      else if c = CHR 0x5C then
        (case cs of
           [] \<Rightarrow> None
         | e # es \<Rightarrow>
             (if e = CHR ''u'' then
                (case hex4 es of
                   None \<Rightarrow> None
                 | Some u \<Rightarrow>
                     (case surrogate_pair u (drop 4 es) of
                        Some w \<Rightarrow>
                          map_option (\<lambda>(t, k). (utf8 w @ t, k + 12)) (scanstring (drop 10 es))
                      | None \<Rightarrow>
                          map_option (\<lambda>(t, k). (utf8 u @ t, k + 6)) (scanstring (drop 4 es))))
              else
                (case map_of escapes e of
                   None \<Rightarrow> None
                 | Some ch \<Rightarrow> map_option (\<lambda>(t, k). (ch # t, k + 2)) (scanstring es))))
      else if is_control c then None
      else map_option (\<lambda>(t, k). (c # t, k + 1)) (scanstring cs))"

text \<open>
  A number at the head of the text: \<^verbatim>\<open>(-?(?:0|[1-9]\d*))(\.\d+)?([eE][-+]?\d+)?\<close>, with the
  number of characters it takes.
\<close>

definition int_part :: "string \<Rightarrow> string" where
  "int_part s =
     (case s of
        [] \<Rightarrow> []
      | c # cs \<Rightarrow> (if c = CHR ''0'' then ''0'' else takeWhile isdigit s))"

definition frac_part :: "string \<Rightarrow> string" where
  "frac_part s =
     (case s of
        [] \<Rightarrow> []
      | c # cs \<Rightarrow> (if c = CHR ''.'' then takeWhile isdigit cs else []))"

text \<open>The exponent: its sign, its digits and its length in the text.\<close>

definition exp_part :: "string \<Rightarrow> (bool \<times> string \<times> nat) option" where
  "exp_part s =
     (case s of
        [] \<Rightarrow> None
      | c # cs \<Rightarrow>
          (if c = CHR ''e'' \<or> c = CHR ''E'' then
             (let signed = (startswith cs ''-'' \<or> startswith cs ''+'');
                  ds = takeWhile isdigit (if signed then drop 1 cs else cs)
              in if ds = [] then None
                 else Some (startswith cs ''-'', ds, 1 + (if signed then 1 else 0) + length ds))
           else None))"

definition match_number :: "string \<Rightarrow> (token \<times> nat) option" where
  "match_number s =
     (let neg = startswith s ''-'';
          s1 = (if neg then drop 1 s else s);
          ip = int_part s1;
          s2 = drop (length ip) s1;
          fp = frac_part s2;
          flen = (if fp = [] then 0 else 1 + length fp);
          ex = exp_part (drop flen s2);
          elen = (case ex of None \<Rightarrow> 0 | Some (_, _, n) \<Rightarrow> n);
          sgn = (if neg then - 1 else 1);
          n = (if neg then 1 else 0) + length ip + flen + elen
      in if ip = [] then None
         else if fp = [] \<and> ex = None then
           (if length ip \<le> int_max_str_digits
            then Some (TVal (JInt (sgn * digits_val ip)), n)
            else Some (TRaise ValueError, n))
         else
           Some (TVal (JFloat (FDec (sgn * digits_val (ip @ fp))
                    ((case ex of
                        None \<Rightarrow> 0
                      | Some (eneg, ds, _) \<Rightarrow> (if eneg then - digits_val ds else digits_val ds))
                     - int (length fp)))), n))"

definition json_literals :: "(string \<times> json) list" where
  "json_literals = [(''null'', JNull), (''true'', JBool True), (''false'', JBool False)]"

definition json_constants :: "(string \<times> json) list" where
  "json_constants = [(''NaN'', JFloat FNan), (''Infinity'', JFloat (FInf False)),
                (''-Infinity'', JFloat (FInf True))]"

text \<open>The first word of the table the text starts with.\<close>

definition starts_word :: "(string \<times> json) list \<Rightarrow> string \<Rightarrow> (string \<times> json) option" where
  "starts_word tab s = find (\<lambda>(w, _). startswith s w) tab"

definition punctuation :: "(char \<times> token) list" where
  "punctuation = [(CHR ''{'', TLBrace), (CHR ''}'', TRBrace), (CHR ''['', TLBrack),
                  (CHR '']'', TRBrack), (CHR '':'', TColon), (CHR '','', TComma)]"

fun tokens :: "string \<Rightarrow> token list" where
  "tokens [] = []"
| "tokens (c # cs) =
     (if c \<in> set [CHR 0x20, CHR 0x09, CHR 0x0A, CHR 0x0D] then tokens cs
      else if c = CHR 0x22 then
        (case scanstring cs of
           None \<Rightarrow> [TRaise JSONDecodeError]
         | Some (t, k) \<Rightarrow> TVal (JStr t) # tokens (drop k cs))
      else
        (case map_of punctuation c of
           Some t \<Rightarrow> t # tokens cs
         | None \<Rightarrow>
             (case starts_word json_literals (c # cs) of
                Some (w, v) \<Rightarrow> TVal v # tokens (drop (length w - 1) cs)
              | None \<Rightarrow>
                  (case match_number (c # cs) of
                     Some (t, k) \<Rightarrow> t # tokens (drop (k - 1) cs)
                   | None \<Rightarrow>
                       (case starts_word json_constants (c # cs) of
                          Some (w, v) \<Rightarrow> TVal v # tokens (drop (length w - 1) cs)
                        | None \<Rightarrow> [TRaise JSONDecodeError])))))"

text \<open>
  The automaton.  A frame is a container being read: an array with its elements so far,
  an object with its members so far, or an object whose next value belongs to a key.
\<close>

datatype frame =
    FArr "json list"
  | FObj pydict
  | FField pydict string

datatype expect =
    Value
  | ValueOrEnd
  | KeyOrEnd
  | Key
  | Colon string
  | Next
  | Finished json

text \<open>A complete value goes to the container on top of the stack.\<close>

fun deliver :: "json \<Rightarrow> frame list \<Rightarrow> exn + (expect \<times> frame list)" where
  "deliver v [] = Inr (Finished v, [])"
| "deliver v (FArr xs # st) = Inr (Next, FArr (xs @ [v]) # st)"
| "deliver v (FField d k # st) = Inr (Next, FObj (dict_set d k v) # st)"
| "deliver v (FObj d # st) = Inl JSONDecodeError"

text \<open>A token where a value has to start.\<close>

definition value_start :: "frame list \<Rightarrow> token \<Rightarrow> exn + (expect \<times> frame list)" where
  "value_start st t =
     (case t of
        TVal v \<Rightarrow> deliver v st
      | TLBrack \<Rightarrow> Inr (ValueOrEnd, FArr [] # st)
      | TLBrace \<Rightarrow> Inr (KeyOrEnd, FObj [] # st)
      | TRaise x \<Rightarrow> Inl x
      | _ \<Rightarrow> Inl JSONDecodeError)"

definition key_start :: "frame list \<Rightarrow> token \<Rightarrow> exn + (expect \<times> frame list)" where
  "key_start st t =
     (case t of
        TVal v \<Rightarrow> (case v of JStr k \<Rightarrow> Inr (Colon k, st) | _ \<Rightarrow> Inl JSONDecodeError)
      | _ \<Rightarrow> Inl JSONDecodeError)"

definition close_top :: "frame list \<Rightarrow> token \<Rightarrow> exn + (expect \<times> frame list)" where
  "close_top st t =
     (case st of
        FArr xs # st' \<Rightarrow> (if t = TRBrack then deliver (JArr xs) st' else Inl JSONDecodeError)
      | FObj d # st' \<Rightarrow> (if t = TRBrace then deliver (JObj d) st' else Inl JSONDecodeError)
      | _ \<Rightarrow> Inl JSONDecodeError)"

definition step :: "expect \<Rightarrow> frame list \<Rightarrow> token \<Rightarrow> exn + (expect \<times> frame list)" where
  "step e st t =
     (case e of
        Finished v \<Rightarrow> Inl JSONDecodeError
      | Value \<Rightarrow> value_start st t
      | ValueOrEnd \<Rightarrow> (if t = TRBrack then close_top st t else value_start st t)
      | KeyOrEnd \<Rightarrow> (if t = TRBrace then close_top st t else key_start st t)
      | Key \<Rightarrow> key_start st t
      | Colon k \<Rightarrow>
          (case st of
             FObj d # st' \<Rightarrow>
               (if t = TColon then Inr (Value, FField d k # st') else Inl JSONDecodeError)
           | _ \<Rightarrow> Inl JSONDecodeError)
      | Next \<Rightarrow>
          (if t = TComma then
             (case st of
                FArr xs # st' \<Rightarrow> Inr (Value, st)
              | FObj d # st' \<Rightarrow> Inr (Key, st)
              | _ \<Rightarrow> Inl JSONDecodeError)
           else close_top st t))"

fun parse :: "expect \<Rightarrow> frame list \<Rightarrow> token list \<Rightarrow> exn + json" where
  "parse e st [] = (case e of Finished v \<Rightarrow> Inr v | _ \<Rightarrow> Inl JSONDecodeError)"
| "parse e st (t # ts) =
     (case step e st t of
        Inl x \<Rightarrow> Inl x
      | Inr (e', st') \<Rightarrow> parse e' st' ts)"

definition json_loads :: "string \<Rightarrow> exn + json" where
  "json_loads s = parse Value [] (tokens s)"


section \<open>\<^verbatim>\<open>EC_v5.py\<close>: emotion classification\<close>

text \<open>
  The processor object of \<^verbatim>\<open>EC_v5.py\<close> and \<^verbatim>\<open>QA_v3.py\<close>: \<^verbatim>\<open>__init__\<close> stores the model name
  and the base prompt and starts with no results.  Every method takes it as \<open>self\<close>.
\<close>

record processor =
  model_name :: string
  base_prompt :: string
  results :: "pydict list"

subsection \<open>\<^verbatim>\<open>extract_emotion_from_json\<close>\<close>

text \<open>
  The pattern \<^verbatim>\<open>\{[^{}]*"Emotion"[^{}]*\}\<close>.  The bare \<^verbatim>\<open>except\<close> turns every exception into
  the result \<^verbatim>\<open>None\<close>, which is \<open>JNull\<close> here, as is a missing key.
\<close>

definition emotion_object :: "item list" where
  "emotion_object =
     [One (Chr CHR ''{''), Star (NoneOf ''{}'')] @ lit ''\"Emotion\"'' @
     [Star (NoneOf ''{}''), One (Chr CHR ''}'')]"

definition extract_emotion_from_json :: "processor \<Rightarrow> string \<Rightarrow> json" where
  "extract_emotion_from_json self model_response =
     (case re_search no_flags emotion_object model_response of
        None \<Rightarrow> JNull
      | Some json_match \<Rightarrow>
          (case json_loads (group0 json_match) of
             Inl _ \<Rightarrow> JNull
           | Inr emotion_data \<Rightarrow>
               (case py_get emotion_data ''Emotion'' JNull of
                  Inl _ \<Rightarrow> JNull
                | Inr emotion \<Rightarrow> emotion)))"

subsection \<open>The choices\<close>

text \<open>
  \<^verbatim>\<open>extract_emotion\<close> is written for a list of strings.  A record of the input file can
  also hold a string or an object under \<^verbatim>\<open>"choices"\<close>, and the code runs on both: it asks
  for membership (\<^verbatim>\<open>in\<close>), iterates, indexes and tests for emptiness.  A string is the
  sequence of its characters (\<open>code_points\<close>) and \<^verbatim>\<open>in\<close> is the substring test; a dict is
  the sequence of its keys and has no integer index.
\<close>

datatype choices = AsList "string list" | AsStr string | AsDict "string list"

fun str_in_choices :: "string \<Rightarrow> choices \<Rightarrow> bool" where
  "str_in_choices e (AsList cs) = (e \<in> set cs)"
| "str_in_choices e (AsStr s) = str_contains e s"
| "str_in_choices e (AsDict ks) = (e \<in> set ks)"

text \<open>
  \<^verbatim>\<open>x in choices\<close> for a decoded value \<open>x\<close>: a value that is not a string equals no
  choice; a string on the right refuses it (\<^verbatim>\<open>TypeError\<close>), a dict refuses what cannot be
  hashed.
\<close>

fun json_in_choices :: "json \<Rightarrow> choices \<Rightarrow> exn + bool" where
  "json_in_choices (JStr e) c = Inr (str_in_choices e c)"
| "json_in_choices x (AsList cs) = Inr False"
| "json_in_choices x (AsStr s) = Inl TypeError"
| "json_in_choices (JArr xs) (AsDict ks) = Inl TypeError"
| "json_in_choices (JObj d) (AsDict ks) = Inl TypeError"
| "json_in_choices x (AsDict ks) = Inr False"

fun choices_items :: "choices \<Rightarrow> string list" where
  "choices_items (AsList cs) = cs"
| "choices_items (AsStr s) = code_points s"
| "choices_items (AsDict ks) = ks"

text \<open>\<^verbatim>\<open>choices[i]\<close>\<close>

fun choices_index :: "choices \<Rightarrow> nat \<Rightarrow> exn + json" where
  "choices_index (AsList cs) i = (if i < length cs then Inr (JStr (cs ! i)) else Inl IndexError)"
| "choices_index (AsStr s) i =
     (if i < length (code_points s) then Inr (JStr (code_points s ! i)) else Inl IndexError)"
| "choices_index (AsDict ks) i = Inl KeyError"

definition choices_truthy :: "choices \<Rightarrow> bool" where
  "choices_truthy c = (choices_items c \<noteq> [])"

text \<open>\<^verbatim>\<open>choices[0] if choices else "Delight"\<close>\<close>

definition default_emotion :: "choices \<Rightarrow> exn + json" where
  "default_emotion c = (if choices_truthy c then choices_index c 0 else Inr (JStr ''Delight''))"

subsection \<open>\<^verbatim>\<open>extract_emotion\<close>\<close>

definition emotion_patterns :: "(string \<times> string list) list" where
  "emotion_patterns =
     [(''Delight'', [''delight'', ''happy'', ''joy'', ''pleasure'']),
      (''Anger'', [''anger'', ''angry'', ''mad'', ''furious'']),
      (''Embarrassment'', [''embarrassment'', ''embarrassed'', ''ashamed'', ''shame'']),
      (''Hopeless'', [''hopeless'', ''despair'', ''desperate'', ''no hope'']),
      (''Pride'', [''pride'', ''proud'', ''accomplish'', ''achievement'']),
      (''Disappointment'', [''disappointment'', ''disappointed'', ''let down'', ''dissatisfied''])]"

text \<open>The index of the first element that satisfies \<open>P\<close>.\<close>

fun first_index :: "('a \<Rightarrow> bool) \<Rightarrow> 'a list \<Rightarrow> nat option" where
  "first_index P [] = None"
| "first_index P (x # xs) = (if P x then Some 0 else map_option Suc (first_index P xs))"

text \<open>The loop over \<^verbatim>\<open>emotion_patterns.items()\<close>, in the order of the table.\<close>

fun indicator_words :: "(string \<times> string list) list \<Rightarrow> choices \<Rightarrow> string \<Rightarrow> string option" where
  "indicator_words [] choices response_lower = None"
| "indicator_words ((emotion, patterns) # rest) choices response_lower =
     (if str_in_choices emotion choices \<and>
         list_ex (\<lambda>pattern. re_search no_flags (lit pattern) response_lower \<noteq> None) patterns
      then Some emotion
      else indicator_words rest choices response_lower)"

text \<open>
  The part of \<^verbatim>\<open>extract_emotion\<close> after the JSON attempt: a choice found in the lowered
  response, then an indicator word, then the first choice.
\<close>

definition match_in_text :: "string \<Rightarrow> choices \<Rightarrow> exn + json" where
  "match_in_text model_response choices =
     (let response_lower = lower model_response;
          choices_lower = map lower (choices_items choices)
      in case first_index (\<lambda>choice. str_contains choice response_lower) choices_lower of
           Some i \<Rightarrow> choices_index choices i
         | None \<Rightarrow>
             (case indicator_words emotion_patterns choices response_lower of
                Some emotion \<Rightarrow> Inr (JStr emotion)
              | None \<Rightarrow> default_emotion choices))"

definition extract_emotion :: "processor \<Rightarrow> string \<Rightarrow> choices \<Rightarrow> exn + json" where
  "extract_emotion self model_response choices =
     (let emotion_from_json = extract_emotion_from_json self model_response
      in if \<not> py_truthy emotion_from_json then match_in_text model_response choices
         else
           (case json_in_choices emotion_from_json choices of
              Inl e \<Rightarrow> Inl e
            | Inr found \<Rightarrow>
                (if found then Inr emotion_from_json
                 else match_in_text model_response choices)))"

subsection \<open>\<^verbatim>\<open>print\<close> and \<^verbatim>\<open>time.sleep\<close>\<close>

text \<open>
  \<^verbatim>\<open>print\<close> encodes its message for standard output, which is taken to be UTF-8 with
  strict error handling: every character can be encoded but a surrogate, for which
  \<^verbatim>\<open>print\<close> raises \<^verbatim>\<open>UnicodeEncodeError\<close>.  The messages of the sources are f-strings.  Their
  fixed text has no surrogate, nor has a number.  A value in braces is written by
  \<^verbatim>\<open>str\<close>: a string as it is, any other value through \<^verbatim>\<open>repr\<close>, which escapes a surrogate.
  So \<^verbatim>\<open>print\<close> is given the values in the braces of its message, and refuses the message
  when one of them is a string with a surrogate.
\<close>

definition print :: "json list \<Rightarrow> exn + unit" where
  "print values =
     (if list_ex (\<lambda>v. case v of JStr s \<Rightarrow> has_surrogate s | _ \<Rightarrow> False) values
      then Inl UnicodeEncodeError else Inr ())"

text \<open>
  \<^verbatim>\<open>time.sleep(secs)\<close> for a float or an integer, \<open>FDec m e\<close> being the number \<open>m * 10 ^ e\<close>.
  The seconds are turned into a count of nanoseconds, which has to fit a signed 64-bit
  integer (\<^verbatim>\<open>OverflowError\<close>, also for an infinity) and must not be negative
  (\<^verbatim>\<open>ValueError\<close>, also for a NaN).  \<open>m * 10 ^ e\<close> is the fraction \<open>a / b\<close> below.
\<close>

fun time_sleep :: "pyfloat \<Rightarrow> exn + unit" where
  "time_sleep (FDec m e) =
     (let a = (if 0 \<le> e then m * 10 ^ nat e else m);
          b = (if 0 \<le> e then 1 else 10 ^ nat (- e))
      in if a * 10 ^ 9 < - (2 ^ 63) * b \<or> 2 ^ 63 * b \<le> a * 10 ^ 9 then Inl OverflowError
         else if a < 0 then Inl ValueError
         else Inr ())"
| "time_sleep FNan = Inl ValueError"
| "time_sleep (FInf negative) = Inl OverflowError"

subsection \<open>\<^verbatim>\<open>process_single_example\<close>\<close>

text \<open>
  The model is outside the program: \<^verbatim>\<open>ollama.generate\<close> either returns a text or raises
  an exception with a message, and the run is given what it does for the record of each
  line.
\<close>

datatype generated = Response string | Raised string

text \<open>
  \<^verbatim>\<open>', '.join(choices)\<close> builds the prompt before the \<^verbatim>\<open>try\<close>: it raises \<^verbatim>\<open>TypeError\<close> unless
  \<^verbatim>\<open>choices\<close> is a list of strings, a string or a dict.  The prompt itself goes to the
  model and is not modelled.  The handler of the \<^verbatim>\<open>try\<close> prints the id of the example and
  \<^verbatim>\<open>str(e)\<close> before it takes the default emotion: \<^verbatim>\<open>str(e)\<close> is the message of the exception
  of \<^verbatim>\<open>ollama.generate\<close>; the exceptions that \<^verbatim>\<open>extract_emotion\<close> raises have messages in
  ASCII, written \<open>[]\<close> here.
\<close>

definition is_str :: "json \<Rightarrow> bool" where
  "is_str x = (case x of JStr _ \<Rightarrow> True | _ \<Rightarrow> False)"

definition the_str :: "json \<Rightarrow> string" where
  "the_str x = (case x of JStr s \<Rightarrow> s | _ \<Rightarrow> [])"

definition joinable :: "json \<Rightarrow> exn + choices" where
  "joinable c =
     (case c of
        JArr xs \<Rightarrow> (if list_all is_str xs then Inr (AsList (map the_str xs)) else Inl TypeError)
      | JStr s \<Rightarrow> Inr (AsStr s)
      | JObj d \<Rightarrow> Inr (AsDict (map fst d))
      | _ \<Rightarrow> Inl TypeError)"

definition emotion_record :: "json \<Rightarrow> json \<Rightarrow> pydict" where
  "emotion_record ident emotion = [(''id'', ident), (''predicted_emotion'', emotion)]"

definition process_single_example_EC :: "processor \<Rightarrow> generated \<Rightarrow> json \<Rightarrow> exn + pydict" where
  "process_single_example_EC self reply example =
     (case py_get example ''choices'' (JArr []) of
        Inl e \<Rightarrow> Inl e
      | Inr c \<Rightarrow>
          (case joinable c of
             Inl e \<Rightarrow> Inl e
           | Inr choices \<Rightarrow>
               (let ident = (case example of JObj d \<Rightarrow> dict_get d ''id'' JNull | _ \<Rightarrow> JNull);
                    tried = (case reply of
                               Response model_response \<Rightarrow> extract_emotion self model_response choices
                             | Raised msg \<Rightarrow> Inl OtherError);
                    str_e = (case reply of Response model_response \<Rightarrow> [] | Raised msg \<Rightarrow> msg)
                in case tried of
                     Inr predicted_emotion \<Rightarrow> Inr (emotion_record ident predicted_emotion)
                   | Inl _ \<Rightarrow>
                       (case print [ident, JStr str_e] of
                          Inl e \<Rightarrow> Inl e
                        | Inr _ \<Rightarrow>
                            (case default_emotion choices of
                               Inl e \<Rightarrow> Inl e
                             | Inr dflt \<Rightarrow> Inr (emotion_record ident dflt))))))"

subsection \<open>\<^verbatim>\<open>process_jsonl_file\<close> and \<^verbatim>\<open>save_results\<close>\<close>

text \<open>\<^verbatim>\<open>xs[:k]\<close>\<close>

definition py_take :: "int \<Rightarrow> 'a list \<Rightarrow> 'a list" where
  "py_take k xs = (if k < 0 then take (nat (int (length xs) + k)) xs else take (nat k) xs)"

text \<open>\<^verbatim>\<open>if max_examples: lines = lines[:max_examples]\<close>\<close>

definition capped :: "int option \<Rightarrow> 'a list \<Rightarrow> 'a list" where
  "capped max_examples lines =
     (case max_examples of
        None \<Rightarrow> lines
      | Some k \<Rightarrow> (if k \<noteq> 0 then py_take k lines else lines))"

definition default_record :: "nat \<Rightarrow> pydict" where
  "default_record i = emotion_record (JInt (int i)) (JStr ''Delight'')"

text \<open>
  The body of the loop for line \<open>i\<close>.  Every exception of the \<^verbatim>\<open>try\<close> block ends in one of
  the two handlers, which append the default record to the results as they are then.
  Two statements of the \<^verbatim>\<open>try\<close> block come after the result is appended: the \<^verbatim>\<open>print\<close> of
  the id and the predicted emotion, and \<^verbatim>\<open>time.sleep(delay)\<close> for every line but the last.
  The messages of the handlers themselves have a number and \<^verbatim>\<open>str(e)\<close> in their braces,
  for exceptions with messages in ASCII: they are always printed.
\<close>

definition process_line_EC ::
  "(nat \<Rightarrow> generated) \<Rightarrow> pyfloat \<Rightarrow> nat \<Rightarrow> processor \<Rightarrow> nat \<times> string \<Rightarrow> processor" where
  "process_line_EC llm delay total_examples self il =
     (let i = fst il; line = snd il;
          failed = (\<lambda>s. s\<lparr>results := results s @ [default_record i]\<rparr>)
      in case json_loads (strip line) of
           Inl _ \<Rightarrow> failed self
         | Inr example \<Rightarrow>
             (case py_get example ''id'' JNull of
                Inl _ \<Rightarrow> failed self
              | Inr ident \<Rightarrow>
                  (case print [ident] of
                     Inl _ \<Rightarrow> failed self
                   | Inr _ \<Rightarrow>
                       (case process_single_example_EC self (llm i) example of
                          Inl _ \<Rightarrow> failed self
                        | Inr result \<Rightarrow>
                            (let appended = self\<lparr>results := results self @ [result]\<rparr>
                             in case print [ident, dict_get result ''predicted_emotion'' JNull] of
                                  Inl _ \<Rightarrow> failed appended
                                | Inr _ \<Rightarrow>
                                    (if int i < int total_examples - 1
                                     then (case time_sleep delay of
                                             Inl _ \<Rightarrow> failed appended
                                           | Inr _ \<Rightarrow> appended)
                                     else appended))))))"

text \<open>The loop, up to the call of \<^verbatim>\<open>save_results\<close>.\<close>

definition process_jsonl_file_EC ::
  "(nat \<Rightarrow> generated) \<Rightarrow> pyfloat \<Rightarrow> int option \<Rightarrow> processor \<Rightarrow> string list \<Rightarrow> processor" where
  "process_jsonl_file_EC llm delay max_examples self file_lines =
     (let lines = capped max_examples file_lines
      in foldl (process_line_EC llm delay (length lines)) self (enumerate 0 lines))"

text \<open>The records \<^verbatim>\<open>save_results\<close> writes, one line each.\<close>

definition save_results_EC :: "processor \<Rightarrow> pydict list" where
  "save_results_EC self =
     map (\<lambda>result. [(''id'', dict_get result ''id'' JNull),
                     (''predicted_emotion'', dict_get result ''predicted_emotion'' JNull)])
       (results self)"


section \<open>\<^verbatim>\<open>ED_v2.py\<close> and \<^verbatim>\<open>ES_v1.py\<close>: the HTTP client\<close>

text \<open>
  The processor object of \<^verbatim>\<open>ED_v2.py\<close> and \<^verbatim>\<open>ES_v1.py\<close>.  Its logger only prints and is left
  out.
\<close>

record client =
  base_url :: string
  model :: string
  generate_url :: string

text \<open>
  What a run does to the world: the POST requests it has sent, the seconds it has slept,
  the records it has written to the output file, and its two counters.
\<close>

record run =
  posts :: nat
  sleeps :: "nat list"
  outfile :: "pydict list"
  processed_count :: nat
  error_count :: nat

text \<open>
  The service is outside the program.  The three calls \<^verbatim>\<open>requests.post\<close>,
  \<^verbatim>\<open>raise_for_status\<close> and \<^verbatim>\<open>response.json()\<close> of one attempt either raise or give the
  decoded body; a run is given what the \<open>n\<close>-th POST request does.  An exception is
  \<open>RequestException\<close> when it is an instance of \<^verbatim>\<open>requests.exceptions.RequestException\<close>
  (connection errors, timeouts, the \<^verbatim>\<open>HTTPError\<close> of a status that is not a success), and
  \<open>JSONDecodeError\<close> when it is a \<^verbatim>\<open>json.JSONDecodeError\<close> that is not: the \<^verbatim>\<open>except\<close> clauses
  are tried in this order.  For a body that is not JSON, \<^verbatim>\<open>response.json()\<close> of requests 2.27
  and later raises \<^verbatim>\<open>requests.exceptions.JSONDecodeError\<close>, a subclass of both classes, which
  is \<open>RequestException\<close> here; earlier versions raise \<^verbatim>\<open>json.JSONDecodeError\<close> alone.
\<close>

datatype http = Raises exn | Body json

subsection \<open>\<^verbatim>\<open>generate_response\<close>\<close>

text \<open>
  The same text in both files.  \<open>retry\<close> is the \<^verbatim>\<open>for attempt in range(max_retries)\<close> loop
  with \<open>k\<close> attempts left.  The first handler catches \<^verbatim>\<open>RequestException\<close>: it sleeps two
  seconds and goes on, or returns the empty string after the last attempt.  The second
  handler catches \<^verbatim>\<open>json.JSONDecodeError\<close> and returns the empty string.  Nothing else is
  caught: \<^verbatim>\<open>result.get\<close> on a body that is not an object and \<^verbatim>\<open>.strip()\<close> on a value that
  is not a string raise \<^verbatim>\<open>AttributeError\<close>.
\<close>

text \<open>\<^verbatim>\<open>result.get("response", "").strip()\<close>\<close>

definition response_field :: "json \<Rightarrow> exn + string" where
  "response_field result =
     (case py_get result ''response'' (JStr []) of
        Inl e \<Rightarrow> Inl e
      | Inr r \<Rightarrow> (case r of JStr text \<Rightarrow> Inr (strip text) | _ \<Rightarrow> Inl AttributeError))"

fun retry :: "(nat \<Rightarrow> http) \<Rightarrow> nat \<Rightarrow> nat \<Rightarrow> run \<Rightarrow> (exn + string) \<times> run" where
  "retry service max_retries 0 w = (Inr [], w)"
| "retry service max_retries (Suc k) w =
     (let attempt = max_retries - Suc k;
          w1 = w\<lparr>posts := posts w + 1\<rparr>
      in case service (posts w) of
           Body result \<Rightarrow> (response_field result, w1)
         | Raises e \<Rightarrow>
             (if e = RequestException then
                (if int attempt < int max_retries - 1
                 then retry service max_retries k (w1\<lparr>sleeps := sleeps w1 @ [2]\<rparr>)
                 else (Inr [], w1))
              else if e = JSONDecodeError then (Inr [], w1)
              else (Inl e, w1)))"

definition generate_response ::
  "client \<Rightarrow> (nat \<Rightarrow> http) \<Rightarrow> nat \<Rightarrow> run \<Rightarrow> (exn + string) \<times> run" where
  "generate_response self service max_retries w = retry service max_retries max_retries w"

text \<open>
  What the call returns after its last attempt: the response of the body, the empty
  string after one of the two exceptions it catches, any other exception as it is.
\<close>

definition last_attempt :: "http \<Rightarrow> exn + string" where
  "last_attempt a =
     (case a of
        Body result \<Rightarrow> response_field result
      | Raises e \<Rightarrow> (if e = JSONDecodeError \<or> e = RequestException then Inr [] else Inl e))"

section \<open>\<^verbatim>\<open>ED_v2.py\<close>: emotion detection\<close>

subsection \<open>\<^verbatim>\<open>_extract_index_manually\<close>\<close>

definition ignorecase :: re_flags where
  "ignorecase = \<lparr>IGNORECASE = True, DOTALL = False\<rparr>"

definition dotall :: re_flags where
  "dotall = \<lparr>IGNORECASE = False, DOTALL = True\<rparr>"

definition ignorecase_dotall :: re_flags where
  "ignorecase_dotall = \<lparr>IGNORECASE = True, DOTALL = True\<rparr>"

text \<open>\<^verbatim>\<open>(\d+)\<close>\<close>

definition number_group :: "item list" where
  "number_group = [GroupOpen, Plus Digit, GroupClose]"

text \<open>The three characters of the Chinese word for "inconsistent", in UTF-8.\<close>

definition inconsistent_zh :: string where
  "inconsistent_zh =
     [CHR 0xE4, CHR 0xB8, CHR 0x8D, CHR 0xE4, CHR 0xB8, CHR 0x80, CHR 0xE8, CHR 0x87, CHR 0xB4]"

definition index_patterns :: "item list list" where
  "index_patterns =
     [lit ''\"index\"'' @ [Star Space, One (Chr CHR '':''), Star Space] @ number_group,
      lit ''index'' @ [Star Space, One (Chr CHR '':''), Star Space] @ number_group,
      lit inconsistent_zh @ [LazyStar Dot] @ number_group,
      lit ''inconsistent'' @ [LazyStar Dot] @ number_group,
      lit ''index'' @ [Star Space, One (Chr CHR ''=''), Star Space] @ number_group]"

text \<open>The loop over the patterns: a \<^verbatim>\<open>ValueError\<close> of \<^verbatim>\<open>int\<close> goes on to the next one.\<close>

fun first_labelled :: "item list list \<Rightarrow> string \<Rightarrow> int option" where
  "first_labelled [] text = None"
| "first_labelled (pattern # rest) text =
     (case re_search ignorecase pattern text of
        None \<Rightarrow> first_labelled rest text
      | Some m \<Rightarrow>
          (case py_int (group1 m) of
             Some n \<Rightarrow> Some n
           | None \<Rightarrow> first_labelled rest text))"

definition extract_index_manually :: "client \<Rightarrow> string \<Rightarrow> int" where
  "extract_index_manually self text =
     (case first_labelled index_patterns text of
        Some n \<Rightarrow> n
      | None \<Rightarrow>
          (case re_findall no_flags [WordB, Plus Digit, WordB] text of
             [] \<Rightarrow> - 1
           | number # _ \<Rightarrow> (case py_int number of Some n \<Rightarrow> n | None \<Rightarrow> - 1)))"

subsection \<open>\<^verbatim>\<open>extract_index_from_response\<close>\<close>

text \<open>The pattern \<^verbatim>\<open>```json\s*(.*?)\s*```\<close>\<close>

definition fenced_json :: "item list" where
  "fenced_json =
     lit [CHR 0x60, CHR 0x60, CHR 0x60, CHR ''j'', CHR ''s'', CHR ''o'', CHR ''n''] @
     [Star Space, GroupOpen, LazyStar Dot, GroupClose, Star Space] @
     lit [CHR 0x60, CHR 0x60, CHR 0x60]"

text \<open>
  The first lines of the \<^verbatim>\<open>try\<close> block, the same in \<^verbatim>\<open>ED_v2.py\<close> and \<^verbatim>\<open>ES_v1.py\<close>:
  \<^verbatim>\<open>json.loads\<close> of the fenced block when the response has one, of the whole response
  otherwise.
\<close>

definition loads_fenced_or_whole :: "string \<Rightarrow> exn + json" where
  "loads_fenced_or_whole response_text =
     (case re_search dotall fenced_json response_text of
        Some json_match \<Rightarrow> json_loads (group1 json_match)
      | None \<Rightarrow> json_loads response_text)"

text \<open>
  Only \<^verbatim>\<open>json.JSONDecodeError\<close> is caught.  \<^verbatim>\<open>data.get\<close> raises \<^verbatim>\<open>AttributeError\<close> when the
  text decodes to something that is not an object, and returns whatever the object holds
  under \<^verbatim>\<open>"index"\<close>.
\<close>

definition extract_index_from_response :: "client \<Rightarrow> string \<Rightarrow> exn + json" where
  "extract_index_from_response self response_text =
     (if response_text = [] then Inr (JInt (- 1))
      else
        (case loads_fenced_or_whole response_text of
           Inr data \<Rightarrow> py_get data ''index'' (JInt (- 1))
         | Inl e \<Rightarrow>
             (if e = JSONDecodeError then Inr (JInt (extract_index_manually self response_text))
              else Inl e)))"

subsection \<open>\<^verbatim>\<open>build_prompt\<close> and \<^verbatim>\<open>process_single_case\<close>\<close>

definition is_obj :: "json \<Rightarrow> bool" where
  "is_obj x = (case x of JObj _ \<Rightarrow> True | _ \<Rightarrow> False)"

text \<open>
  The prompt goes to the service and is not modelled; what matters is whether building
  it raises.  \<^verbatim>\<open>len(texts)\<close> needs a sized value, and \<^verbatim>\<open>item.get\<close> needs every item the
  loop meets to be a dict: the elements of a list, the characters of a string, the keys
  of a dict.
\<close>

definition build_prompt_ED :: "client \<Rightarrow> json \<Rightarrow> exn + unit" where
  "build_prompt_ED self case_data =
     (case py_get case_data ''text'' (JArr []) of
        Inl e \<Rightarrow> Inl e
      | Inr texts \<Rightarrow>
          (case texts of
             JArr items \<Rightarrow> (if list_all is_obj items then Inr () else Inl AttributeError)
           | JStr s \<Rightarrow> (if s = [] then Inr () else Inl AttributeError)
           | JObj d \<Rightarrow> (if d = [] then Inr () else Inl AttributeError)
           | _ \<Rightarrow> Inl TypeError))"

definition process_single_case_ED ::
  "client \<Rightarrow> (nat \<Rightarrow> http) \<Rightarrow> json \<Rightarrow> int \<Rightarrow> run \<Rightarrow> (exn + pydict) \<times> run" where
  "process_single_case_ED self service case_data case_id w =
     (case build_prompt_ED self case_data of
        Inl e \<Rightarrow> (Inl e, w)
      | Inr prompt \<Rightarrow>
          (case generate_response self service 3 w of
             (Inl e, w1) \<Rightarrow> (Inl e, w1)
           | (Inr response, w1) \<Rightarrow>
               (case extract_index_from_response self response of
                  Inl e \<Rightarrow> (Inl e, w1)
                | Inr predicted_index \<Rightarrow>
                    (Inr [(''id'', JInt case_id), (''predicted_index'', predicted_index)], w1))))"

subsection \<open>\<^verbatim>\<open>process_jsonl_file\<close>\<close>

text \<open>\<^verbatim>\<open>max_lines and line_num > max_lines\<close>\<close>

definition cap_reached :: "int option \<Rightarrow> nat \<Rightarrow> bool" where
  "cap_reached max_lines line_num =
     (case max_lines of None \<Rightarrow> False | Some k \<Rightarrow> k \<noteq> 0 \<and> k < int line_num)"

text \<open>
  The \<^verbatim>\<open>try\<close> block for a stripped line that is not empty.  Both handlers count an error
  and write nothing.
\<close>

definition process_line_ED :: "client \<Rightarrow> (nat \<Rightarrow> http) \<Rightarrow> nat \<Rightarrow> string \<Rightarrow> run \<Rightarrow> run" where
  "process_line_ED self service line_num line w =
     (case json_loads line of
        Inl _ \<Rightarrow> w\<lparr>error_count := error_count w + 1\<rparr>
      | Inr case_data \<Rightarrow>
          (case process_single_case_ED self service case_data (int line_num - 1) w of
             (Inl _, w1) \<Rightarrow> w1\<lparr>error_count := error_count w1 + 1\<rparr>
           | (Inr result, w1) \<Rightarrow>
               w1\<lparr>outfile := outfile w1 @ [result],
                  processed_count := processed_count w1 + 1,
                  sleeps := sleeps w1 @ [1]\<rparr>))"

fun lines_ED ::
  "client \<Rightarrow> (nat \<Rightarrow> http) \<Rightarrow> int option \<Rightarrow> nat \<Rightarrow> string list \<Rightarrow> run \<Rightarrow> run" where
  "lines_ED self service max_lines line_num [] w = w"
| "lines_ED self service max_lines line_num (line # rest) w =
     (if cap_reached max_lines line_num then w
      else if strip line = [] then lines_ED self service max_lines (Suc line_num) rest w
      else lines_ED self service max_lines (Suc line_num) rest
             (process_line_ED self service line_num (strip line) w))"

text \<open>
  \<open>reachable\<close> is the answer of \<^verbatim>\<open>check_ollama_connection\<close>.  Without it the method returns
  before it opens a file; with it the output file is opened for writing, which empties
  it.
\<close>

definition fresh :: "run \<Rightarrow> run" where
  "fresh w = w\<lparr>outfile := [], processed_count := 0, error_count := 0\<rparr>"

definition process_jsonl_file_ED ::
  "client \<Rightarrow> bool \<Rightarrow> (nat \<Rightarrow> http) \<Rightarrow> int option \<Rightarrow> string list \<Rightarrow> run \<Rightarrow> run" where
  "process_jsonl_file_ED self reachable service max_lines infile w =
     (if \<not> reachable then w
      else lines_ED self service max_lines 1 infile (fresh w))"

section \<open>\<^verbatim>\<open>ES_v1.py\<close>: emotion summary\<close>

subsection \<open>\<^verbatim>\<open>_extract_fields_manually\<close>\<close>

definition fields :: "string list" where
  "fields = [''predicted_cause'', ''predicted_symptoms'', ''predicted_treatment_process'',
             ''predicted_illness_Characteristics'', ''predicted_treatment_effect'']"

text \<open>The marker for a field that was not found, eight Chinese characters in UTF-8.\<close>

definition not_extracted :: string where
  "not_extracted =
     [CHR 0xE6, CHR 0x9C, CHR 0xAA, CHR 0xE6, CHR 0x8F, CHR 0x90, CHR 0xE5, CHR 0x8F, CHR 0x96,
      CHR 0xE5, CHR 0x88, CHR 0xB0, CHR 0xE7, CHR 0x9B, CHR 0xB8, CHR 0xE5, CHR 0x85, CHR 0xB3,
      CHR 0xE4, CHR 0xBF, CHR 0xA1, CHR 0xE6, CHR 0x81, CHR 0xAF]"

definition quotes :: string where
  "quotes = [CHR 0x22, CHR 0x27]"

text \<open>\<^verbatim>\<open>"field"\s*:\s*"([^"]*)"\<close>\<close>

definition quoted_field :: "string \<Rightarrow> item list" where
  "quoted_field field =
     [One (Chr CHR 0x22)] @ lit field @
     [One (Chr CHR 0x22), Star Space, One (Chr CHR '':''), Star Space, One (Chr CHR 0x22),
      GroupOpen, Star (NoneOf [CHR 0x22]), GroupClose, One (Chr CHR 0x22)]"

text \<open>\<^verbatim>\<open>["\']?\s*:\s*["\']?([^"\']*)\<close>, the tail of each loose pattern.\<close>

definition loose_tail :: "item list" where
  "loose_tail =
     [Opt (OneOf quotes), Star Space, One (Chr CHR '':''), Star Space, Opt (OneOf quotes),
      GroupOpen, Star (NoneOf quotes), GroupClose]"

definition field_patterns :: "(string \<times> item list list) list" where
  "field_patterns =
     [(''predicted_cause'',
         [quoted_field ''predicted_cause'', lit ''cause'' @ [Opt (Chr CHR ''s'')] @ loose_tail]),
      (''predicted_symptoms'',
         [quoted_field ''predicted_symptoms'',
          lit ''symptom'' @ [Opt (Chr CHR ''s'')] @ loose_tail]),
      (''predicted_treatment_process'',
         [quoted_field ''predicted_treatment_process'',
          lit ''treatment'' @ [One Dot] @ lit ''process'' @ loose_tail]),
      (''predicted_illness_Characteristics'',
         [quoted_field ''predicted_illness_Characteristics'',
          lit ''characteristics'' @ loose_tail]),
      (''predicted_treatment_effect'',
         [quoted_field ''predicted_treatment_effect'',
          lit ''treatment'' @ [One Dot] @ lit ''effect'' @ loose_tail])]"

text \<open>The inner loop: the first pattern that matches gives the stripped group.\<close>

fun first_match :: "item list list \<Rightarrow> string \<Rightarrow> string" where
  "first_match [] text = []"
| "first_match (pattern # rest) text =
     (case re_search ignorecase_dotall pattern text of
        Some m \<Rightarrow> strip (group1 m)
      | None \<Rightarrow> first_match rest text)"

definition extract_field :: "item list list \<Rightarrow> string \<Rightarrow> string" where
  "extract_field pattern_list text =
     (let found = first_match pattern_list text
      in if found = [] then not_extracted else found)"

definition extract_fields_manually :: "client \<Rightarrow> string \<Rightarrow> pydict" where
  "extract_fields_manually self text =
     map (\<lambda>(field, pattern_list). (field, JStr (extract_field pattern_list text))) field_patterns"

subsection \<open>\<^verbatim>\<open>extract_json_from_response\<close>\<close>

definition empty_response :: pydict where
  "empty_response = map (\<lambda>field. (field, JStr ''ERROR: Empty response'')) fields"

definition extract_json_from_response :: "client \<Rightarrow> string \<Rightarrow> exn + json" where
  "extract_json_from_response self response_text =
     (if response_text = [] then Inr (JObj empty_response)
      else
        (case loads_fenced_or_whole response_text of
           Inr data \<Rightarrow> Inr data
         | Inl e \<Rightarrow>
             (if e = JSONDecodeError then Inr (JObj (extract_fields_manually self response_text))
              else Inl e)))"

subsection \<open>\<^verbatim>\<open>build_prompt\<close> and \<^verbatim>\<open>process_single_case\<close>\<close>

text \<open>
  \<^verbatim>\<open>" ".join(x) if isinstance(x, list) else str(x)\<close>: joining raises \<^verbatim>\<open>TypeError\<close> for a list
  with an element that is not a string.
\<close>

definition join_or_str :: "json \<Rightarrow> exn + unit" where
  "join_or_str x =
     (case x of
        JArr xs \<Rightarrow> (if list_all is_str xs then Inr () else Inl TypeError)
      | _ \<Rightarrow> Inr ())"

definition build_prompt_ES :: "client \<Rightarrow> json \<Rightarrow> exn + unit" where
  "build_prompt_ES self case_data =
     (case py_get case_data ''case_description'' (JArr []) of
        Inl e \<Rightarrow> Inl e
      | Inr case_description \<Rightarrow>
          (case py_get case_data ''consultation_process'' (JArr []) of
             Inl e \<Rightarrow> Inl e
           | Inr consultation_process \<Rightarrow>
               (case join_or_str case_description of
                  Inl e \<Rightarrow> Inl e
                | Inr _ \<Rightarrow> join_or_str consultation_process)))"

text \<open>The five \<^verbatim>\<open>extracted_data.get(field, "")\<close> of the result.\<close>

fun get_fields :: "json \<Rightarrow> string list \<Rightarrow> exn + pydict" where
  "get_fields extracted_data [] = Inr []"
| "get_fields extracted_data (field # rest) =
     (case py_get extracted_data field (JStr []) of
        Inl e \<Rightarrow> Inl e
      | Inr v \<Rightarrow>
          (case get_fields extracted_data rest of
             Inl e \<Rightarrow> Inl e
           | Inr d \<Rightarrow> Inr ((field, v) # d)))"

text \<open>
  The last two steps of \<^verbatim>\<open>process_single_case\<close>: the extraction, and the five fields of
  the result.
\<close>

definition summary_fields :: "client \<Rightarrow> string \<Rightarrow> exn + pydict" where
  "summary_fields self response =
     (case extract_json_from_response self response of
        Inl e \<Rightarrow> Inl e
      | Inr extracted_data \<Rightarrow> get_fields extracted_data fields)"

definition process_single_case_ES ::
  "client \<Rightarrow> (nat \<Rightarrow> http) \<Rightarrow> json \<Rightarrow> run \<Rightarrow> (exn + pydict) \<times> run" where
  "process_single_case_ES self service case_data w =
     (case py_get case_data ''id'' (JStr ''unknown'') of
        Inl e \<Rightarrow> (Inl e, w)
      | Inr case_id \<Rightarrow>
          (case build_prompt_ES self case_data of
             Inl e \<Rightarrow> (Inl e, w)
           | Inr prompt \<Rightarrow>
               (case generate_response self service 3 w of
                  (Inl e, w1) \<Rightarrow> (Inl e, w1)
                | (Inr response, w1) \<Rightarrow>
                    (case summary_fields self response of
                       Inl e \<Rightarrow> (Inl e, w1)
                     | Inr d \<Rightarrow> (Inr ((''id'', case_id) # d), w1)))))"

subsection \<open>\<^verbatim>\<open>process_jsonl_file\<close>\<close>

definition process_line_ES :: "client \<Rightarrow> (nat \<Rightarrow> http) \<Rightarrow> nat \<Rightarrow> string \<Rightarrow> run \<Rightarrow> run" where
  "process_line_ES self service line_num line w =
     (case json_loads line of
        Inl _ \<Rightarrow> w\<lparr>error_count := error_count w + 1\<rparr>
      | Inr case_data \<Rightarrow>
          (case process_single_case_ES self service case_data w of
             (Inl _, w1) \<Rightarrow> w1\<lparr>error_count := error_count w1 + 1\<rparr>
           | (Inr result, w1) \<Rightarrow>
               w1\<lparr>outfile := outfile w1 @ [result],
                  processed_count := processed_count w1 + 1,
                  sleeps := sleeps w1 @ [1]\<rparr>))"

fun lines_ES ::
  "client \<Rightarrow> (nat \<Rightarrow> http) \<Rightarrow> int option \<Rightarrow> nat \<Rightarrow> string list \<Rightarrow> run \<Rightarrow> run" where
  "lines_ES self service max_lines line_num [] w = w"
| "lines_ES self service max_lines line_num (line # rest) w =
     (if cap_reached max_lines line_num then w
      else if strip line = [] then lines_ES self service max_lines (Suc line_num) rest w
      else lines_ES self service max_lines (Suc line_num) rest
             (process_line_ES self service line_num (strip line) w))"

definition process_jsonl_file_ES ::
  "client \<Rightarrow> bool \<Rightarrow> (nat \<Rightarrow> http) \<Rightarrow> int option \<Rightarrow> string list \<Rightarrow> run \<Rightarrow> run" where
  "process_jsonl_file_ES self reachable service max_lines infile w =
     (if \<not> reachable then w
      else lines_ES self service max_lines 1 infile (fresh w))"


section \<open>\<^verbatim>\<open>QA_v3.py\<close>: question answering\<close>

subsection \<open>\<^verbatim>\<open>is_yes_no_question\<close>\<close>

text \<open>The patterns \<^verbatim>\<open>^is\s+\<close>, \<^verbatim>\<open>^are\s+\<close>, ... in the order of the source.\<close>

definition yes_no_patterns :: "item list list" where
  "yes_no_patterns =
     map (\<lambda>w. [Bol] @ lit w @ [Plus Space])
       [''is'', ''are'', ''does'', ''do'', ''did'', ''was'', ''were'', ''has'', ''have'', ''had'',
        ''can'', ''could'', ''will'', ''would'', ''should'', ''must'', ''may'', ''might'']"

definition yes_no_phrases :: "string list" where
  "yes_no_phrases = ['' yes or no'', '' true or false'', '' correct or incorrect'']"

definition is_yes_no_question :: "processor \<Rightarrow> string \<Rightarrow> bool" where
  "is_yes_no_question self question =
     (let question_lower = lower (strip question)
      in list_ex (\<lambda>pattern. re_match no_flags pattern question_lower \<noteq> None) yes_no_patterns \<or>
         list_ex (\<lambda>phrase. str_contains phrase question_lower) yes_no_phrases)"

subsection \<open>\<^verbatim>\<open>clean_response\<close>\<close>

text \<open>\<^verbatim>\<open>^\s*yes\s*$\<close> and \<^verbatim>\<open>^\s*no\s*$\<close>\<close>

definition only_word :: "string \<Rightarrow> item list" where
  "only_word w = [Bol, Star Space] @ lit w @ [Star Space, Eol]"

definition clean_response :: "processor \<Rightarrow> string \<Rightarrow> bool \<Rightarrow> string" where
  "clean_response self raw is_yes_no =
     (let response = strip raw
      in if is_yes_no then
           (let response_lower = lower response
            in if re_match ignorecase (only_word ''yes'') response_lower \<noteq> None then ''yes''
               else if re_match ignorecase (only_word ''no'') response_lower \<noteq> None then ''no''
               else
                 (let first_word = (case split response of [] \<Rightarrow> [] | w # _ \<Rightarrow> lower w)
                  in if first_word \<in> set [''yes'', ''no''] then first_word
                     else take 50 response))
         else take 200 response)"

subsection \<open>\<^verbatim>\<open>process_single_example\<close> and \<^verbatim>\<open>save_results\<close>\<close>

text \<open>
  \<^verbatim>\<open>problem.strip()\<close> in \<^verbatim>\<open>is_yes_no_question\<close> comes before the \<^verbatim>\<open>try\<close> and raises
  \<^verbatim>\<open>AttributeError\<close> when the record holds something else than a string under
  \<^verbatim>\<open>"problem"\<close>.  The result in memory has four keys.  The handler of the \<^verbatim>\<open>try\<close> prints
  the id of the example and the message of the exception before it builds its result.
\<close>

definition answer_record :: "json \<Rightarrow> string \<Rightarrow> bool \<Rightarrow> string \<Rightarrow> pydict" where
  "answer_record ident answer is_yes_no original =
     [(''id'', ident), (''predicted_answer'', JStr answer),
      (''is_yes_no_question'', JBool is_yes_no), (''original_response'', JStr original)]"

definition process_single_example_QA :: "processor \<Rightarrow> generated \<Rightarrow> json \<Rightarrow> exn + pydict" where
  "process_single_example_QA self reply example =
     (case py_get example ''problem'' (JStr []) of
        Inl e \<Rightarrow> Inl e
      | Inr problem \<Rightarrow>
          (case problem of
             JStr question \<Rightarrow>
               (let is_yes_no = is_yes_no_question self question;
                    ident = (case example of JObj d \<Rightarrow> dict_get d ''id'' (JInt 0) | _ \<Rightarrow> JInt 0)
                in case reply of
                     Response text \<Rightarrow>
                       (let model_response = strip text;
                            cleaned_response = clean_response self model_response is_yes_no
                        in Inr (answer_record ident cleaned_response is_yes_no model_response))
                   | Raised msg \<Rightarrow>
                       (case print [(case example of JObj d \<Rightarrow> dict_get d ''id'' JNull | _ \<Rightarrow> JNull),
                                    JStr msg] of
                          Inl e \<Rightarrow> Inl e
                        | Inr _ \<Rightarrow> Inr (answer_record ident (''Error: '' @ msg) False [])))
           | _ \<Rightarrow> Inl AttributeError))"

definition save_results_QA :: "processor \<Rightarrow> pydict list" where
  "save_results_QA self =
     map (\<lambda>result. [(''id'', dict_get result ''id'' JNull),
                     (''predicted_answer'', dict_get result ''predicted_answer'' JNull)])
       (results self)"


section \<open>Sample inputs\<close>

definition sample_processor :: processor where
  "sample_processor = \<lparr>model_name = ''testclassifi'', base_prompt = [], results = []\<rparr>"

definition sample_client :: client where
  "sample_client = \<lparr>base_url = ''http://localhost:11434'', model = ''llama2'',
                     generate_url = ''http://localhost:11434/api/generate''\<rparr>"

definition sample_run :: run where
  "sample_run = \<lparr>posts = 0, sleeps = [], outfile = [], processed_count = 0, error_count = 0\<rparr>"

text \<open>A service that answers every request with the same text.\<close>

definition answers :: "string \<Rightarrow> nat \<Rightarrow> http" where
  "answers response n = Body (JObj [(''response'', JStr response)])"

text \<open>A service whose first request fails as the given exception and that answers afterwards.\<close>

definition fails_once :: "exn \<Rightarrow> string \<Rightarrow> nat \<Rightarrow> http" where
  "fails_once e response n = (if n = 0 then Raises e else answers response n)"

text \<open>A line of \<^verbatim>\<open>EC_v5.py\<close> whose only choice is the escape \<^verbatim>\<open>\ud800\<close>, a surrogate.\<close>

definition surrogate_choice :: string where
  "surrogate_choice = ''{\"id\": 7, \"choices\": [\"'' @ [CHR 0x5C] @ ''ud800\"]}''"



section \<open>Properties of the emotion extractor\<close>

lemma first_index_Some:
  "first_index P xs = Some i \<Longrightarrow> i < length xs \<and> P (xs ! i)"
proof (induction xs arbitrary: i)
  case Nil
  then show ?case by simp
next
  case (Cons x xs)
  show ?case
  proof (cases "P x")
    case True
    with Cons.prems show ?thesis by simp
  next
    case False
    with Cons.prems obtain j where j: "first_index P xs = Some j" "i = Suc j"
      by auto
    with Cons.IH [of j] show ?thesis by simp
  qed
qed

lemma indicator_words_in_choices:
  "indicator_words tab c r = Some e \<Longrightarrow> str_in_choices e c"
  by (induction tab c r rule: indicator_words.induct) (auto split: if_splits)

text \<open>The tiers after the JSON attempt answer with one of the choices.\<close>

lemma match_in_text_member:
  assumes "cs \<noteq> []"
  shows "\<exists>c. c \<in> set cs \<and> match_in_text t (AsList cs) = Inr (JStr c)"
proof (cases "first_index (\<lambda>choice. str_contains choice (lower t)) (map lower cs)")
  case (Some i)
  from first_index_Some [OF Some] have "i < length cs" by simp
  then show ?thesis
    using Some by (auto simp: match_in_text_def)
next
  case None
  show ?thesis
  proof (cases "indicator_words emotion_patterns (AsList cs) (lower t)")
    case (Some e)
    from indicator_words_in_choices [OF Some] have "e \<in> set cs" by simp
    then show ?thesis
      using None Some by (auto simp: match_in_text_def)
  next
    case None2: None
    from assms have "cs ! 0 \<in> set cs" by (cases cs) auto
    then show ?thesis
      using None None2 assms
      by (auto simp: match_in_text_def default_emotion_def choices_truthy_def)
  qed
qed

lemma json_in_list:
  "json_in_choices x (AsList cs) = Inr (x \<in> JStr ` set cs)"
  by (cases x) auto

text \<open>
  Claim C1.  For every model response, the empty one included, and every list of
  choices that is not empty, \<^verbatim>\<open>extract_emotion\<close> returns a string of the list: the label
  of the JSON object when it is one of the choices, else a choice found in the text, a
  choice named by an indicator word, or the first choice.
\<close>

theorem extract_emotion_in_choices:
  assumes "choices \<noteq> []"
  shows "\<exists>c. c \<in> set choices \<and>
           extract_emotion self model_response (AsList choices) = Inr (JStr c)"
proof (cases "py_truthy (extract_emotion_from_json self model_response) \<and>
              extract_emotion_from_json self model_response \<in> JStr ` set choices")
  case True
  then obtain c where "c \<in> set choices"
      "extract_emotion_from_json self model_response = JStr c"
    by auto
  with True show ?thesis
    by (auto simp: extract_emotion_def json_in_list)
next
  case False
  then have "extract_emotion self model_response (AsList choices) =
               match_in_text model_response (AsList choices)"
    by (auto simp: extract_emotion_def json_in_list Let_def)
  with match_in_text_member [OF assms] show ?thesis by simp
qed

text \<open>The empty response with two choices.\<close>

theorem extract_emotion_in_choices_witness:
  "[''Delight'', ''Anger''] \<noteq> [] \<and>
   (\<exists>c. c \<in> set [''Delight'', ''Anger''] \<and>
      extract_emotion \<lparr>model_name = ''testclassifi'', base_prompt = [], results = []\<rparr> []
        (AsList [''Delight'', ''Anger'']) = Inr (JStr c))"
  using extract_emotion_in_choices [of "[''Delight'', ''Anger'']"
      "\<lparr>model_name = ''testclassifi'', base_prompt = [], results = []\<rparr>" "[]"]
  by simp


text \<open>
  Claim C9.  A label read from the JSON object is accepted only when it is one of the
  choices.  When the object carries a label outside the list, the label is dropped and
  the answer is the one of the later tiers (\<open>match_in_text\<close>); with a list that is not
  empty this answer is never the dropped label.
\<close>

theorem out_of_domain_label_discarded:
  assumes "extract_emotion_from_json self model_response = JStr label"
    and "label \<notin> set choices"
  shows "extract_emotion self model_response (AsList choices) =
           match_in_text model_response (AsList choices) \<and>
         (choices \<noteq> [] \<longrightarrow>
            extract_emotion self model_response (AsList choices) \<noteq> Inr (JStr label))"
proof -
  have eq: "extract_emotion self model_response (AsList choices) =
              match_in_text model_response (AsList choices)"
    using assms by (simp add: extract_emotion_def Let_def)
  have "match_in_text model_response (AsList choices) \<noteq> Inr (JStr label)" if "choices \<noteq> []"
    using match_in_text_member [OF that, of model_response] assms(2) by auto
  with eq show ?thesis by simp
qed

text \<open>A response whose object says \<^verbatim>\<open>Joyful\<close>, with the choices \<^verbatim>\<open>Anger\<close> and \<^verbatim>\<open>Pride\<close>.\<close>

theorem out_of_domain_label_discarded_witness:
  "extract_emotion_from_json \<lparr>model_name = ''testclassifi'', base_prompt = [], results = []\<rparr>
      ''{\"Emotion\": \"Joyful\"} but proud'' = JStr ''Joyful'' \<and>
   ''Joyful'' \<notin> set [''Anger'', ''Pride''] \<and>
   [''Anger'', ''Pride''] \<noteq> [] \<and>
   extract_emotion \<lparr>model_name = ''testclassifi'', base_prompt = [], results = []\<rparr>
      ''{\"Emotion\": \"Joyful\"} but proud'' (AsList [''Anger'', ''Pride'']) = Inr (JStr ''Pride'') \<and>
   extract_emotion \<lparr>model_name = ''testclassifi'', base_prompt = [], results = []\<rparr>
      ''{\"Emotion\": \"Joyful\"} but proud'' (AsList [''Anger'', ''Pride'']) \<noteq> Inr (JStr ''Joyful'')"
proof -
  have a: "extract_emotion_from_json \<lparr>model_name = ''testclassifi'', base_prompt = [], results = []\<rparr>
      ''{\"Emotion\": \"Joyful\"} but proud'' = JStr ''Joyful''"
    by code_simp
  have b: "''Joyful'' \<notin> set [''Anger'', ''Pride'']"
    by simp
  have c: "match_in_text ''{\"Emotion\": \"Joyful\"} but proud'' (AsList [''Anger'', ''Pride'']) =
             Inr (JStr ''Pride'')"
    by code_simp
  from out_of_domain_label_discarded [OF a b] a b c show ?thesis
    by simp
qed

section \<open>Properties of the answer cleaner\<close>

text \<open>
  Claim C6.  The question \<^verbatim>\<open>Is the patient improving?\<close> is taken as a yes/no question.
  For the answer \<^verbatim>\<open>Yes, clearly.\<close> the first word is \<^verbatim>\<open>yes,\<close> with its comma, which is
  neither \<^verbatim>\<open>yes\<close> nor \<^verbatim>\<open>no\<close>: \<^verbatim>\<open>clean_response\<close> returns the answer unchanged, not \<^verbatim>\<open>yes\<close>.
\<close>

theorem clean_response_scenario_F:
  "is_yes_no_question self ''Is the patient improving?'' \<and>
   clean_response self ''Yes, clearly.'' (is_yes_no_question self ''Is the patient improving?'') =
     ''Yes, clearly.''"
  by code_simp

section \<open>Properties of the result sink\<close>

lemma get_fields_keys: "get_fields data fs = Inr d \<Longrightarrow> map fst d = fs"
  by (induction fs arbitrary: d) (auto split: sum.splits)

lemma retry_touches:
  "\<exists>p s. snd (retry service m k w) = w\<lparr>posts := p, sleeps := s\<rparr>"
proof (induction k arbitrary: w)
  case 0
  have "w = w\<lparr>posts := posts w, sleeps := sleeps w\<rparr>" by simp
  then show ?case by (metis retry.simps(1) snd_conv)
next
  case (Suc k)
  show ?case
  proof (cases "service (posts w) = Raises RequestException \<and> int (m - Suc k) < int m - 1")
    case True
    let ?w1 = "w\<lparr>posts := posts w + 1, sleeps := sleeps w @ [2]\<rparr>"
    from True have "retry service m (Suc k) w = retry service m k ?w1"
      by (simp add: Let_def)
    moreover from Suc [of ?w1] obtain p s where
      "snd (retry service m k ?w1) = ?w1\<lparr>posts := p, sleeps := s\<rparr>" by blast
    ultimately have "snd (retry service m (Suc k) w) = w\<lparr>posts := p, sleeps := s\<rparr>"
      by simp
    then show ?thesis by blast
  next
    case False
    have "w\<lparr>posts := posts w + 1\<rparr> = w\<lparr>posts := posts w + 1, sleeps := sleeps w\<rparr>"
      by simp
    with False have "snd (retry service m (Suc k) w) =
                       w\<lparr>posts := posts w + 1, sleeps := sleeps w\<rparr>"
      by (auto simp: Let_def split: http.splits)
    then show ?thesis by blast
  qed
qed

lemma generate_response_outfile:
  assumes "generate_response self service m w = (r, w1)"
  shows "outfile w1 = outfile w" "processed_count w1 = processed_count w"
    "error_count w1 = error_count w"
proof -
  from retry_touches [of service m m w] assms obtain p s where
    "w1 = w\<lparr>posts := p, sleeps := s\<rparr>"
    by (auto simp: generate_response_def)
  then show "outfile w1 = outfile w" "processed_count w1 = processed_count w"
    "error_count w1 = error_count w" by simp_all
qed

lemma process_line_ED_writes:
  "\<exists>rs. outfile (process_line_ED self service n line w) = outfile w @ rs \<and> length rs \<le> 1 \<and>
         list_all (\<lambda>r. map fst r = [''id'', ''predicted_index'']) rs"
  by (auto simp: process_line_ED_def process_single_case_ED_def
      split: sum.splits prod.splits dest: generate_response_outfile(1))

lemma lines_ED_writes:
  "\<exists>rs. outfile (lines_ED self service m n ls w) = outfile w @ rs \<and> length rs \<le> length ls \<and>
         list_all (\<lambda>r. map fst r = [''id'', ''predicted_index'']) rs"
proof (induction ls arbitrary: n w)
  case Nil
  then show ?case by simp
next
  case (Cons l ls)
  show ?case
  proof (cases "cap_reached m n")
    case True
    then show ?thesis by simp
  next
    case nc: False
    show ?thesis
    proof (cases "strip l = []")
      case True
      from Cons.IH [of "Suc n" w] obtain rs where
        "outfile (lines_ED self service m (Suc n) ls w) = outfile w @ rs"
        "length rs \<le> length ls" "list_all (\<lambda>r. map fst r = [''id'', ''predicted_index'']) rs"
        by blast
      with nc True show ?thesis by (intro exI [of _ rs]) simp
    next
      case False
      let ?w1 = "process_line_ED self service n (strip l) w"
      from process_line_ED_writes [of self service n "strip l" w] obtain r1 where r1:
        "outfile ?w1 = outfile w @ r1" "length r1 \<le> 1"
        "list_all (\<lambda>r. map fst r = [''id'', ''predicted_index'']) r1"
        by blast
      from Cons.IH [of "Suc n" ?w1] obtain rs where rs:
        "outfile (lines_ED self service m (Suc n) ls ?w1) = outfile ?w1 @ rs"
        "length rs \<le> length ls" "list_all (\<lambda>r. map fst r = [''id'', ''predicted_index'']) rs"
        by blast
      with nc False r1 show ?thesis by (intro exI [of _ "r1 @ rs"]) simp
    qed
  qed
qed

lemma summary_fields_keys: "summary_fields self response = Inr d \<Longrightarrow> map fst d = fields"
  using get_fields_keys by (auto simp: summary_fields_def split: sum.splits)

lemma process_single_case_ES_frame:
  assumes "process_single_case_ES self service case_data w = (r, w1)"
  shows "outfile w1 = outfile w" and "r = Inr d \<Longrightarrow> map fst d = ''id'' # fields"
  using assms
  by (auto simp: process_single_case_ES_def split: sum.splits prod.splits
      dest: generate_response_outfile(1) summary_fields_keys)

lemma process_line_ES_writes:
  "\<exists>rs. outfile (process_line_ES self service n line w) = outfile w @ rs \<and> length rs \<le> 1 \<and>
         list_all (\<lambda>r. map fst r = ''id'' # fields) rs"
proof (cases "json_loads line")
  case (Inl e)
  then show ?thesis by (simp add: process_line_ES_def)
next
  case (Inr case_data)
  obtain r w1 where p: "process_single_case_ES self service case_data w = (r, w1)"
    by (cases "process_single_case_ES self service case_data w")
  show ?thesis
  proof (cases r)
    case (Inl e)
    with Inr p process_single_case_ES_frame(1) [OF p] show ?thesis
      by (simp add: process_line_ES_def)
  next
    case res: (Inr d)
    with Inr p process_single_case_ES_frame [OF p] show ?thesis
      by (intro exI [of _ "[d]"]) (simp add: process_line_ES_def)
  qed
qed

lemma lines_ES_writes:
  "\<exists>rs. outfile (lines_ES self service m n ls w) = outfile w @ rs \<and> length rs \<le> length ls \<and>
         list_all (\<lambda>r. map fst r = ''id'' # fields) rs"
proof (induction ls arbitrary: n w)
  case Nil
  then show ?case by simp
next
  case (Cons l ls)
  show ?case
  proof (cases "cap_reached m n")
    case True
    then show ?thesis by simp
  next
    case nc: False
    show ?thesis
    proof (cases "strip l = []")
      case True
      from Cons.IH [of "Suc n" w] obtain rs where
        "outfile (lines_ES self service m (Suc n) ls w) = outfile w @ rs"
        "length rs \<le> length ls" "list_all (\<lambda>r. map fst r = ''id'' # fields) rs"
        by blast
      with nc True show ?thesis by (intro exI [of _ rs]) simp
    next
      case False
      let ?w1 = "process_line_ES self service n (strip l) w"
      from process_line_ES_writes [of self service n "strip l" w] obtain r1 where r1:
        "outfile ?w1 = outfile w @ r1" "length r1 \<le> 1"
        "list_all (\<lambda>r. map fst r = ''id'' # fields) r1"
        by blast
      from Cons.IH [of "Suc n" ?w1] obtain rs where rs:
        "outfile (lines_ES self service m (Suc n) ls ?w1) = outfile ?w1 @ rs"
        "length rs \<le> length ls" "list_all (\<lambda>r. map fst r = ''id'' # fields) rs"
        by blast
      with nc False r1 show ?thesis by (intro exI [of _ "r1 @ rs"]) simp
    qed
  qed
qed

text \<open>
  Claim C7.  \<^verbatim>\<open>save_results\<close> of \<^verbatim>\<open>QA_v3.py\<close> and of \<^verbatim>\<open>EC_v5.py\<close> writes, for every result in
  memory, a record with the two keys \<^verbatim>\<open>id\<close> and \<^verbatim>\<open>predicted_answer\<close> (\<^verbatim>\<open>predicted_emotion\<close>)
  and nothing else.  A result of \<^verbatim>\<open>process_single_example\<close> of \<^verbatim>\<open>QA_v3.py\<close> has the two
  further keys \<^verbatim>\<open>is_yes_no_question\<close> and \<^verbatim>\<open>original_response\<close> in memory; they do not reach
  the file.  The records that \<^verbatim>\<open>ED_v2.py\<close> and \<^verbatim>\<open>ES_v1.py\<close> write have the keys \<^verbatim>\<open>id\<close> and
  \<^verbatim>\<open>predicted_index\<close>, and \<^verbatim>\<open>id\<close> and the five fields.
\<close>

theorem written_records_keys:
  "map (map fst) (save_results_QA self) =
     replicate (length (results self)) [''id'', ''predicted_answer''] \<and>
   map (map fst) (save_results_EC self) =
     replicate (length (results self)) [''id'', ''predicted_emotion''] \<and>
   (process_single_example_QA self reply example = Inr result \<longrightarrow>
      map fst result = [''id'', ''predicted_answer'', ''is_yes_no_question'', ''original_response''] \<and>
      save_results_QA (self\<lparr>results := results self @ [result]\<rparr>) =
        save_results_QA self @
        [[(''id'', dict_get result ''id'' JNull),
          (''predicted_answer'', dict_get result ''predicted_answer'' JNull)]]) \<and>
   list_all (\<lambda>r. map fst r = [''id'', ''predicted_index''])
     (outfile (process_jsonl_file_ED client True service max_lines infile w)) \<and>
   list_all (\<lambda>r. map fst r = ''id'' # fields)
     (outfile (process_jsonl_file_ES client True service max_lines infile w))"
proof -
  have qa: "map (map fst) (save_results_QA self) =
              replicate (length (results self)) [''id'', ''predicted_answer'']"
    by (simp add: save_results_QA_def comp_def map_replicate_const)
  have ec: "map (map fst) (save_results_EC self) =
              replicate (length (results self)) [''id'', ''predicted_emotion'']"
    by (simp add: save_results_EC_def comp_def map_replicate_const)
  have mem: "map fst result =
               [''id'', ''predicted_answer'', ''is_yes_no_question'', ''original_response'']"
    if "process_single_example_QA self reply example = Inr result"
    using that
    by (auto simp: process_single_example_QA_def answer_record_def Let_def
        split: sum.splits json.splits generated.splits)
  have app: "save_results_QA (self\<lparr>results := results self @ [result]\<rparr>) =
        save_results_QA self @
        [[(''id'', dict_get result ''id'' JNull),
          (''predicted_answer'', dict_get result ''predicted_answer'' JNull)]]"
    by (simp add: save_results_QA_def)
  have ed: "list_all (\<lambda>r. map fst r = [''id'', ''predicted_index''])
     (outfile (process_jsonl_file_ED client True service max_lines infile w))"
    using lines_ED_writes [of client service max_lines 1 infile "fresh w"]
    by (auto simp: process_jsonl_file_ED_def fresh_def)
  have es: "list_all (\<lambda>r. map fst r = ''id'' # fields)
     (outfile (process_jsonl_file_ES client True service max_lines infile w))"
    using lines_ES_writes [of client service max_lines 1 infile "fresh w"]
    by (auto simp: process_jsonl_file_ES_def fresh_def)
  from qa ec mem app ed es show ?thesis by blast
qed

text \<open>The answer \<^verbatim>\<open>No\<close> to a yes/no question: four keys in memory, two in the file.\<close>

theorem written_records_keys_witness:
  "process_single_example_QA sample_processor (Response ''No'')
      (JObj [(''id'', JInt 4), (''problem'', JStr ''Is the patient improving?'')]) =
     Inr [(''id'', JInt 4), (''predicted_answer'', JStr ''no''),
          (''is_yes_no_question'', JBool True), (''original_response'', JStr ''No'')] \<and>
   save_results_QA (sample_processor\<lparr>results :=
       [[(''id'', JInt 4), (''predicted_answer'', JStr ''no''),
         (''is_yes_no_question'', JBool True), (''original_response'', JStr ''No'')]]\<rparr>) =
     [[(''id'', JInt 4), (''predicted_answer'', JStr ''no'')]]"
proof -
  let ?example = "JObj [(''id'', JInt 4), (''problem'', JStr ''Is the patient improving?'')]"
  let ?result = "[(''id'', JInt 4), (''predicted_answer'', JStr ''no''),
          (''is_yes_no_question'', JBool True), (''original_response'', JStr ''No'')]"
  have run: "process_single_example_QA sample_processor (Response ''No'') ?example = Inr ?result"
    by code_simp
  from written_records_keys [of sample_processor "Response ''No''" ?example ?result] run
  have "save_results_QA (sample_processor\<lparr>results := results sample_processor @ [?result]\<rparr>) =
        save_results_QA sample_processor @
        [[(''id'', dict_get ?result ''id'' JNull),
          (''predicted_answer'', dict_get ?result ''predicted_answer'' JNull)]]"
    by blast
  then have "save_results_QA (sample_processor\<lparr>results := [?result]\<rparr>) =
        [[(''id'', JInt 4), (''predicted_answer'', JStr ''no'')]]"
    by (simp add: save_results_QA_def dict_get_def sample_processor_def)
  with run show ?thesis by simp
qed

section \<open>Properties of the retry loop\<close>

lemma retry_Suc_stop:
  assumes "service (posts w) \<noteq> Raises RequestException"
  shows "retry service m (Suc k) w =
           ((case service (posts w) of
               Body result \<Rightarrow> response_field result
             | Raises e \<Rightarrow> (if e = JSONDecodeError then Inr [] else Inl e)),
            w\<lparr>posts := posts w + 1\<rparr>)"
  using assms by (cases "service (posts w)") (auto simp: Let_def)

lemma retry_Suc_again:
  assumes "service (posts w) = Raises RequestException"
  shows "retry service m (Suc k) w =
           (if int (m - Suc k) < int m - 1
            then retry service m k (w\<lparr>posts := posts w + 1, sleeps := sleeps w @ [2]\<rparr>)
            else (Inr [], w\<lparr>posts := posts w + 1\<rparr>))"
  using assms by (simp add: Let_def)

text \<open>The attempts of a call with the default budget of three.\<close>

lemma generate_response_attempts:
  "\<exists>n. 1 \<le> n \<and> n \<le> 3 \<and>
     snd (generate_response self service 3 w) =
       w\<lparr>posts := posts w + n, sleeps := sleeps w @ replicate (n - 1) 2\<rparr> \<and>
     (\<forall>i. i < n - 1 \<longrightarrow> service (posts w + i) = Raises RequestException) \<and>
     (n < 3 \<longrightarrow> service (posts w + (n - 1)) \<noteq> Raises RequestException) \<and>
     fst (generate_response self service 3 w) = last_attempt (service (posts w + (n - 1)))"
proof -
  let ?a0 = "service (posts w)" and ?a1 = "service (posts w + 1)" and ?a2 = "service (posts w + 2)"
  let ?w1 = "w\<lparr>posts := posts w + 1, sleeps := sleeps w @ [2]\<rparr>"
  let ?w2 = "?w1\<lparr>posts := posts ?w1 + 1, sleeps := sleeps ?w1 @ [2]\<rparr>"
  have three: "generate_response self service 3 w = retry service 3 (Suc (Suc (Suc 0))) w"
    by (simp add: generate_response_def eval_nat_numeral)
  show ?thesis
  proof (cases "?a0 = Raises RequestException")
    case False
    from retry_Suc_stop [where service = service and w = w and m = 3 and k = "Suc (Suc 0)"]
      three False
    show ?thesis
      by (intro exI [of _ 1]) (auto simp: last_attempt_def split: http.splits)
  next
    case a0: True
    have r1: "generate_response self service 3 w = retry service 3 (Suc (Suc 0)) ?w1"
      using retry_Suc_again [where service = service and w = w and m = 3 and k = "Suc (Suc 0)"]
        three a0 by simp
    show ?thesis
    proof (cases "?a1 = Raises RequestException")
      case False
      then have "service (posts ?w1) \<noteq> Raises RequestException" by simp
      from retry_Suc_stop [where service = service and w = ?w1 and m = 3 and k = "Suc 0"]
        this r1 False a0
      show ?thesis
        by (intro exI [of _ 2]) (auto simp: last_attempt_def split: http.splits)
    next
      case a1: True
      then have "service (posts ?w1) = Raises RequestException" by simp
      from retry_Suc_again [where service = service and w = ?w1 and m = 3 and k = "Suc 0"]
        this r1
      have r2: "generate_response self service 3 w = retry service 3 (Suc 0) ?w2"
        by simp
      have p2: "posts ?w2 = posts w + 2" by simp
      show ?thesis
      proof (cases "?a2 = Raises RequestException")
        case False
        then have "service (posts ?w2) \<noteq> Raises RequestException" by simp
        from retry_Suc_stop [where service = service and w = ?w2 and m = 3 and k = 0]
          this r2 False a0 a1
        show ?thesis
          by (intro exI [of _ 3])
             (auto simp: last_attempt_def less_Suc_eq eval_nat_numeral split: http.splits)
      next
        case a2: True
        then have "service (posts ?w2) = Raises RequestException" by simp
        from retry_Suc_again [where service = service and w = ?w2 and m = 3 and k = 0]
          this r2 a0 a1 a2
        show ?thesis
          by (intro exI [of _ 3])
             (auto simp: last_attempt_def less_Suc_eq eval_nat_numeral)
      qed
    qed
  qed
qed

text \<open>
  Claim C5.  The retries are as the claim says: a service that fails three times with a
  \<^verbatim>\<open>RequestException\<close> gets three requests, with a sleep of two seconds after the first and
  the second, and the call returns the empty string; a service that fails once and
  answers the second request gets two requests and one sleep.  But the call does raise:
  a body that is JSON and no object, such as \<^verbatim>\<open>[]\<close>, or an object whose \<^verbatim>\<open>"response"\<close> is no
  string, makes \<^verbatim>\<open>result.get("response", "").strip()\<close> raise \<^verbatim>\<open>AttributeError\<close>, which neither
  \<^verbatim>\<open>except\<close> clause catches: it leaves \<^verbatim>\<open>generate_response\<close> after one request.
\<close>

theorem generate_response_attribute_error:
  "generate_response sample_client (\<lambda>n. Raises RequestException) 3 sample_run =
     (Inr [], sample_run\<lparr>posts := 3, sleeps := [2, 2]\<rparr>) \<and>
   generate_response sample_client (fails_once RequestException '' ok '') 3 sample_run =
     (Inr ''ok'', sample_run\<lparr>posts := 2, sleeps := [2]\<rparr>) \<and>
   generate_response sample_client (\<lambda>n. Body (JArr [])) 3 sample_run =
     (Inl AttributeError, sample_run\<lparr>posts := 1\<rparr>) \<and>
   generate_response sample_client (\<lambda>n. Body (JObj [(''response'', JNull)])) 3 sample_run =
     (Inl AttributeError, sample_run\<lparr>posts := 1\<rparr>)"
  by code_simp

section \<open>Properties of the index extractor\<close>











section \<open>Properties of the summary extractor\<close>











section \<open>Properties of the batch pipelines\<close>





lemma cap_reached_mono: "cap_reached m a \<Longrightarrow> a \<le> b \<Longrightarrow> cap_reached m b"
  by (auto simp: cap_reached_def split: option.splits)

lemma lines_ED_stop: "cap_reached m n \<Longrightarrow> lines_ED self service m n ls w = w"
  by (cases ls) auto

lemma lines_ED_append:
  "lines_ED self service m n (xs @ ys) w =
     lines_ED self service m (n + length xs) ys (lines_ED self service m n xs w)"
proof (induction xs arbitrary: n w)
  case Nil
  then show ?case by simp
next
  case (Cons x xs)
  show ?case
  proof (cases "cap_reached m n")
    case True
    then have "cap_reached m (n + length (x # xs))"
      by (rule cap_reached_mono) simp
    with True show ?thesis by (simp add: lines_ED_stop)
  next
    case False
    with Cons.IH [of "Suc n"] show ?thesis by simp
  qed
qed

lemma lines_ES_stop: "cap_reached m n \<Longrightarrow> lines_ES self service m n ls w = w"
  by (cases ls) auto

lemma lines_ES_append:
  "lines_ES self service m n (xs @ ys) w =
     lines_ES self service m (n + length xs) ys (lines_ES self service m n xs w)"
proof (induction xs arbitrary: n w)
  case Nil
  then show ?case by simp
next
  case (Cons x xs)
  show ?case
  proof (cases "cap_reached m n")
    case True
    then have "cap_reached m (n + length (x # xs))"
      by (rule cap_reached_mono) simp
    with True show ?thesis by (simp add: lines_ES_stop)
  next
    case False
    with Cons.IH [of "Suc n"] show ?thesis by simp
  qed
qed





text \<open>
  What the two statements after \<^verbatim>\<open>self.results.append(result)\<close> do when they raise.  With a
  delay of \<open>10 ^ 19\<close> seconds \<^verbatim>\<open>time.sleep\<close> raises after the first of two lines, and the
  handler appends the default record as a second record of that line: three records for
  two lines.
\<close>

lemma sleep_raises_after_append:
  "results (process_jsonl_file_EC (\<lambda>i. Response ''I feel anger'') (FDec 1 19) None sample_processor
      [''{\"id\": 7, \"choices\": [\"Delight\", \"Anger\"]}'',
       ''{\"id\": 8, \"choices\": [\"Delight\", \"Anger\"]}'']) =
     [[(''id'', JInt 7), (''predicted_emotion'', JStr ''Anger'')], default_record 0,
      [(''id'', JInt 8), (''predicted_emotion'', JStr ''Anger'')]]"
  by code_simp

text \<open>
  With the single choice \<^verbatim>\<open>"\ud800"\<close> the predicted emotion is a surrogate, which \<^verbatim>\<open>print\<close>
  refuses: two records for one line.
\<close>

lemma surrogate_bytes:
  "char_of (237::nat) = CHR 0xED" "char_of (160::nat) = CHR 0xA0" "char_of (128::nat) = CHR 0x80"
  by code_simp+

lemma surrogate_choice_loads:
  "json_loads (strip surrogate_choice) =
     Inr (JObj [(''id'', JInt 7), (''choices'', JArr [JStr [CHR 0xED, CHR 0xA0, CHR 0x80]])])"
  by (simp add: surrogate_choice_def strip_def json_loads_def hex_val_def hex4_def utf8_def
      surrogate_pair_def escapes_def is_control_def int_part_def frac_part_def exp_part_def
      match_number_def json_literals_def json_constants_def starts_word_def punctuation_def
      value_start_def key_start_def close_top_def step_def startswith_def isspace_def
      isdigit_def py_int_def digits_val_def digit_val_def int_max_str_digits_def
      surrogate_bytes)

lemma print_raises_after_append:
  "results (process_jsonl_file_EC (\<lambda>i. Response ''I feel anger'') (FDec 2 0) None sample_processor
      [surrogate_choice]) =
     [[(''id'', JInt 7), (''predicted_emotion'', JStr [CHR 0xED, CHR 0xA0, CHR 0x80])],
      default_record 0]"
proof -
  let ?example = "JObj [(''id'', JInt 7), (''choices'', JArr [JStr [CHR 0xED, CHR 0xA0, CHR 0x80]])]"
  have p: "process_single_example_EC sample_processor (Response ''I feel anger'') ?example =
             Inr [(''id'', JInt 7), (''predicted_emotion'', JStr [CHR 0xED, CHR 0xA0, CHR 0x80])]"
    by code_simp
  have q: "print [JInt 7, JStr [CHR 0xED, CHR 0xA0, CHR 0x80]] = Inl UnicodeEncodeError"
    by code_simp
  have q1: "print [JInt 7] = Inr ()"
    by code_simp
  have r: "results sample_processor = []"
    by (simp add: sample_processor_def)
  show ?thesis
    by (simp add: process_jsonl_file_EC_def capped_def process_line_EC_def Let_def
        surrogate_choice_loads p q q1 r py_get_def dict_get_def)
qed


lemma strip_blank: "list_all isspace line \<Longrightarrow> strip line = []"
proof -
  assume "list_all isspace line"
  then have d: "dropWhile isspace line = []"
    by (simp only: list_all_iff dropWhile_eq_Nil_conv)
  show ?thesis
    unfolding strip_def d by simp
qed

text \<open>
  Claim C10.  In \<^verbatim>\<open>ED_v2.py\<close> and \<^verbatim>\<open>ES_v1.py\<close> a line that is empty or holds white space
  only is skipped wherever it stands: the run up to and including the line leaves the world as
  the run up to the line before it, with no request sent and no record written, and the
  lines after it are processed from that state under their own line numbers.
\<close>

theorem blank_line_skipped:
  assumes "list_all isspace line"
  shows "process_jsonl_file_ED self reachable service max_lines (pre @ [line]) w =
           process_jsonl_file_ED self reachable service max_lines pre w \<and>
         lines_ED self service max_lines n (pre @ line # post) w =
           lines_ED self service max_lines (n + length pre + 1) post
             (lines_ED self service max_lines n pre w) \<and>
         process_jsonl_file_ES self reachable service max_lines (pre @ [line]) w =
           process_jsonl_file_ES self reachable service max_lines pre w \<and>
         lines_ES self service max_lines n (pre @ line # post) w =
           lines_ES self service max_lines (n + length pre + 1) post
             (lines_ES self service max_lines n pre w)"
proof -
  from assms have blank: "strip line = []" by (rule strip_blank)
  have ed: "lines_ED self service max_lines k (pre @ line # rest) v =
              lines_ED self service max_lines (k + length pre + 1) rest
                (lines_ED self service max_lines k pre v)" for k rest v
  proof -
    let ?v = "lines_ED self service max_lines k pre v"
    have "lines_ED self service max_lines k (pre @ line # rest) v =
            lines_ED self service max_lines (k + length pre) (line # rest) ?v"
      by (rule lines_ED_append)
    also have "\<dots> = lines_ED self service max_lines (k + length pre + 1) rest ?v"
    proof (cases "cap_reached max_lines (k + length pre)")
      case True
      then have "cap_reached max_lines (k + length pre + 1)"
        by (rule cap_reached_mono) simp
      with True show ?thesis by (simp add: lines_ED_stop)
    next
      case False
      with blank show ?thesis by simp
    qed
    finally show ?thesis .
  qed
  have es: "lines_ES self service max_lines k (pre @ line # rest) v =
              lines_ES self service max_lines (k + length pre + 1) rest
                (lines_ES self service max_lines k pre v)" for k rest v
  proof -
    let ?v = "lines_ES self service max_lines k pre v"
    have "lines_ES self service max_lines k (pre @ line # rest) v =
            lines_ES self service max_lines (k + length pre) (line # rest) ?v"
      by (rule lines_ES_append)
    also have "\<dots> = lines_ES self service max_lines (k + length pre + 1) rest ?v"
    proof (cases "cap_reached max_lines (k + length pre)")
      case True
      then have "cap_reached max_lines (k + length pre + 1)"
        by (rule cap_reached_mono) simp
      with True show ?thesis by (simp add: lines_ES_stop)
    next
      case False
      with blank show ?thesis by simp
    qed
    finally show ?thesis .
  qed
  from ed [of 1 "[]" "fresh w"] ed [of n post w] es [of 1 "[]" "fresh w"] es [of n post w]
  show ?thesis
    by (simp add: process_jsonl_file_ED_def process_jsonl_file_ES_def)
qed

text \<open>A line of blanks between two records, in both pipelines.\<close>

theorem blank_line_skipped_witness:
  "list_all isspace ''   '' \<and>
   process_jsonl_file_ED sample_client True (answers ''index: 1'') None
     [''{\"text\": []}'', ''   ''] sample_run =
     sample_run\<lparr>posts := 1, sleeps := [1],
        outfile := [[(''id'', JInt 0), (''predicted_index'', JInt 1)]],
        processed_count := 1\<rparr> \<and>
   process_jsonl_file_ES sample_client True (answers ''{}'') None
     [''{\"id\": 5}'', ''   ''] sample_run =
     sample_run\<lparr>posts := 1, sleeps := [1],
        outfile := [[(''id'', JInt 5), (''predicted_cause'', JStr []),
                     (''predicted_symptoms'', JStr []),
                     (''predicted_treatment_process'', JStr []),
                     (''predicted_illness_Characteristics'', JStr []),
                     (''predicted_treatment_effect'', JStr [])]],
        processed_count := 1\<rparr>"
proof -
  have blank: "list_all isspace ''   ''" by (simp add: isspace_def)
  have ed: "process_jsonl_file_ED sample_client True (answers ''index: 1'') None
     [''{\"text\": []}''] sample_run =
     sample_run\<lparr>posts := 1, sleeps := [1],
        outfile := [[(''id'', JInt 0), (''predicted_index'', JInt 1)]],
        processed_count := 1\<rparr>"
    by code_simp
  have es: "process_jsonl_file_ES sample_client True (answers ''{}'') None
     [''{\"id\": 5}''] sample_run =
     sample_run\<lparr>posts := 1, sleeps := [1],
        outfile := [[(''id'', JInt 5), (''predicted_cause'', JStr []),
                     (''predicted_symptoms'', JStr []),
                     (''predicted_treatment_process'', JStr []),
                     (''predicted_illness_Characteristics'', JStr []),
                     (''predicted_treatment_effect'', JStr [])]],
        processed_count := 1\<rparr>"
    by code_simp
  from blank_line_skipped [OF blank, of sample_client True "answers ''index: 1''" None
      "[''{\"text\": []}'']" sample_run]
    blank_line_skipped [OF blank, of sample_client True "answers ''{}''" None
      "[''{\"id\": 5}'']" sample_run]
    blank ed es
  show ?thesis by simp
qed

end
